theory Spec2Isabelle
  imports Main "HOL-Library.Word" "HOL-Library.Char_ord" "HOL-Library.List_Lexorder"
    "HOL-Library.Multiset"
begin

section \<open>The event store of \<open>src/core/observability.ts\<close>\<close>

text \<open>
  The class \<open>Observability\<close> keeps a table of events in an SQLite database, writes
  events through \<open>writeEvent\<close> and the typed writers, and reads them back through
  \<open>queryEvents\<close>. The embedding follows the TypeScript source function by function.
  What the source reads from its environment (the clock, the random source, the process
  environment, the file system, the storage engine's faults) is an explicit argument;
  what it mutates (the table, the file system, the module-level singleton) is passed in
  and returned.

  Strings are compared as SQLite's BINARY collation and JavaScript's \<open><\<close> compare
  ASCII text: lexicographically by character code (\<open>HOL-Library.Char_ord\<close> and
  \<open>HOL-Library.List_Lexorder\<close>).
\<close>

subsection \<open>JavaScript string helpers\<close>

text \<open>
  \<open>Number.prototype.toString(36)\<close> on a non-negative integer: digits \<open>0-9\<close> then
  \<open>a-z\<close>, most significant first. The digit \<open>d\<close> is the character with code
  \<open>48 + d\<close> (\<open>'0'\<close> is 48) below ten and \<open>87 + d\<close> (\<open>'a'\<close> is 97) from ten on;
  \<open>Buffer.toString("hex")\<close> uses the same digits, two per byte.
\<close>

definition digit_char :: "nat \<Rightarrow> char" where
  "digit_char d = (if d < 10 then char_of (48 + d) else char_of (87 + d))"

function toString36 :: "nat \<Rightarrow> string" where
  "toString36 n =
     (if n < 36 then [digit_char n] else toString36 (n div 36) @ [digit_char (n mod 36)])"
  by pat_completeness auto
termination
  by (relation "measure id") auto

declare toString36.simps [simp del]

definition toString_hex :: "8 word list \<Rightarrow> string" where
  "toString_hex bs =
     concat (map (\<lambda>b. [digit_char (unat b div 16), digit_char (unat b mod 16)]) bs)"

text \<open>\<open>String.prototype.substring(a, b)\<close>: both indices are clamped to the length
  and swapped when \<open>a > b\<close>.\<close>

definition substring :: "string \<Rightarrow> nat \<Rightarrow> nat \<Rightarrow> string" where
  "substring s a b =
     (let a' = min a (length s); b' = min b (length s)
      in take (max a' b' - min a' b') (drop (min a' b') s))"

text \<open>\<open>toUpperCase\<close> on ASCII text: the letters \<open>a-z\<close> move down by 32.\<close>

definition toUpperCase_char :: "char \<Rightarrow> char" where
  "toUpperCase_char c =
     (if CHR ''a'' \<le> c \<and> c \<le> CHR ''z'' then char_of (of_char c - (32::nat)) else c)"

definition toUpperCase :: "string \<Rightarrow> string" where
  "toUpperCase s = map toUpperCase_char s"

text \<open>\<open>padStart(n, p)\<close>: a string of length \<open>n\<close> or more is returned as it is;
  a shorter one gets the pad string repeated and cut to the missing length in front.\<close>

definition padStart :: "nat \<Rightarrow> string \<Rightarrow> string \<Rightarrow> string" where
  "padStart n p s =
     (if n \<le> length s \<or> p = [] then s
      else take (n - length s) (concat (replicate (n - length s) p)) @ s)"

text \<open>\<open>Array.prototype.join(",")\<close> and \<open>String.prototype.split(",")\<close>.\<close>

fun join_comma :: "string list \<Rightarrow> string" where
  "join_comma [] = []"
| "join_comma [x] = x"
| "join_comma (x # y # ys) = x @ CHR '','' # join_comma (y # ys)"

fun split_comma :: "string \<Rightarrow> string list" where
  "split_comma [] = [[]]"
| "split_comma (c # cs) =
     (if c = CHR '','' then [] # split_comma cs
      else (case split_comma cs of [] \<Rightarrow> [[c]] | w # ws \<Rightarrow> (c # w) # ws))"

text \<open>\<open>String.prototype.trim\<close> on ASCII text: tab (code 9), line feed (10),
  vertical tab (11), form feed (12), carriage return (13) and space (32) are removed at
  both ends.\<close>

definition is_space :: "char \<Rightarrow> bool" where
  "is_space c = (of_char c \<in> set [9, 10, 11, 12, 13, 32 :: nat])"

definition trim :: "string \<Rightarrow> string" where
  "trim s = rev (dropWhile is_space (rev (dropWhile is_space s)))"

text \<open>
  A JavaScript number: an integer, a finite number that is not an integer (\<open>m / 2 ^ k\<close>
  with \<open>m\<close> odd and \<open>k > 0\<close>, as every such double is), \<open>NaN\<close>, the two infinities,
  or \<open>-0\<close>.
\<close>

datatype number =
    Integer int
  | Fraction int nat
  | NaN
  | PosInfinity
  | NegInfinity
  | NegZero

text \<open>The numbers that are false in a condition: \<open>0\<close>, \<open>-0\<close> and \<open>NaN\<close>.\<close>

definition falsy_number :: "number \<Rightarrow> bool" where
  "falsy_number n = (n = Integer 0 \<or> n = NegZero \<or> n = NaN)"

text \<open>JavaScript truthiness of an optional string (\<open>undefined\<close> and \<open>""\<close> are
  falsy) and of an optional number (\<open>undefined\<close>, \<open>0\<close>, \<open>-0\<close> and \<open>NaN\<close> are
  falsy).\<close>

definition truthy_string :: "string option \<Rightarrow> bool" where
  "truthy_string s = (case s of None \<Rightarrow> False | Some x \<Rightarrow> x \<noteq> [])"

definition truthy_number :: "number option \<Rightarrow> bool" where
  "truthy_number n = (case n of None \<Rightarrow> False | Some x \<Rightarrow> \<not> falsy_number x)"

text \<open>\<open>a || b\<close> on an optional string \<open>a\<close> and a string \<open>b\<close>.\<close>

definition or_else :: "string option \<Rightarrow> string \<Rightarrow> string" where
  "or_else a b = (case a of None \<Rightarrow> b | Some x \<Rightarrow> if x = [] then b else x)"

subsection \<open>Identifier generation\<close>

text \<open>
  \<open>generateULID\<close> reads \<open>Date.now()\<close> and \<open>randomBytes(8)\<close>; both are arguments
  here. The instance keeps no state between two calls.
\<close>

definition generateULID :: "nat \<Rightarrow> 8 word list \<Rightarrow> string" where
  "generateULID now randomBytes8 =
     (let random = substring (toString_hex randomBytes8) 0 12
      in padStart 26 ''0'' (toUpperCase (toString36 now @ random)))"

text \<open>A sequence of calls, each with the clock value and the random bytes it read.\<close>

definition generateULID_calls :: "(nat \<times> 8 word list) list \<Rightarrow> string list" where
  "generateULID_calls calls = map (\<lambda>c. generateULID (fst c) (snd c)) calls"

text \<open>Proof devices: the fixed-width base-36 numeral and the random part of an id.\<close>

fun fixed36 :: "nat \<Rightarrow> nat \<Rightarrow> string" where
  "fixed36 0 n = []"
| "fixed36 (Suc k) n = fixed36 k (n div 36) @ [toUpperCase_char (digit_char (n mod 36))]"

definition random_part :: "8 word list \<Rightarrow> string" where
  "random_part bs = toUpperCase (take 12 (toString_hex bs))"

subsection \<open>JavaScript values and JSON documents\<close>

text \<open>
  A JavaScript value as the payload of an event holds it. A \<open>Date\<close> is given by the
  ISO text its \<open>toJSON\<close> returns; \<open>JFunction\<close> stands for a function or a symbol. An
  object is the list of its properties in insertion order. The values that
  \<open>JSON.stringify\<close> refuses with a \<open>TypeError\<close> (a \<open>BigInt\<close>, a cyclic object) are
  not values of this type.
\<close>

datatype jsval =
    JUndefined
  | JNull
  | JBool bool
  | JNum number
  | JStr string
  | JDate string
  | JFunction
  | JArr "jsval list"
  | JObj "(string \<times> jsval) list"

text \<open>
  The text that \<open>JSON.stringify\<close> writes into the \<open>data\<close> column is kept as the
  JSON document it denotes.
\<close>

datatype json =
    JsonNull
  | JsonBool bool
  | JsonNum number
  | JsonStr string
  | JsonArr "json list"
  | JsonObj "(string \<times> json) list"

text \<open>
  \<open>JSON.stringify\<close>: \<open>undefined\<close> and a function have no JSON text (the result
  \<open>None\<close>); a property with such a value is left out of its object and an array
  element with such a value becomes \<open>null\<close>. \<open>NaN\<close> and the infinities become
  \<open>null\<close>, \<open>-0\<close> becomes \<open>0\<close>, a \<open>Date\<close> becomes the string of its ISO text.
\<close>

definition stringify_number :: "number \<Rightarrow> json" where
  "stringify_number n =
     (case n of
        Integer i \<Rightarrow> JsonNum (Integer i)
      | Fraction m k \<Rightarrow> JsonNum (Fraction m k)
      | NaN \<Rightarrow> JsonNull
      | PosInfinity \<Rightarrow> JsonNull
      | NegInfinity \<Rightarrow> JsonNull
      | NegZero \<Rightarrow> JsonNum (Integer 0))"

fun JSON_stringify :: "jsval \<Rightarrow> json option"
  and stringify_elements :: "jsval list \<Rightarrow> json list"
  and stringify_properties :: "(string \<times> jsval) list \<Rightarrow> (string \<times> json) list" where
  "JSON_stringify JUndefined = None"
| "JSON_stringify JNull = Some JsonNull"
| "JSON_stringify (JBool b) = Some (JsonBool b)"
| "JSON_stringify (JNum n) = Some (stringify_number n)"
| "JSON_stringify (JStr s) = Some (JsonStr s)"
| "JSON_stringify (JDate stamp) = Some (JsonStr stamp)"
| "JSON_stringify JFunction = None"
| "JSON_stringify (JArr xs) = Some (JsonArr (stringify_elements xs))"
| "JSON_stringify (JObj ps) = Some (JsonObj (stringify_properties ps))"
| "stringify_elements [] = []"
| "stringify_elements (x # xs) =
     (case JSON_stringify x of None \<Rightarrow> JsonNull | Some j \<Rightarrow> j) # stringify_elements xs"
| "stringify_properties [] = []"
| "stringify_properties (p # ps) =
     (case JSON_stringify (snd p) of
        None \<Rightarrow> stringify_properties ps
      | Some j \<Rightarrow> (fst p, j) # stringify_properties ps)"

fun JSON_parse :: "json \<Rightarrow> jsval"
  and parse_elements :: "json list \<Rightarrow> jsval list"
  and parse_properties :: "(string \<times> json) list \<Rightarrow> (string \<times> jsval) list" where
  "JSON_parse JsonNull = JNull"
| "JSON_parse (JsonBool b) = JBool b"
| "JSON_parse (JsonNum n) = JNum n"
| "JSON_parse (JsonStr s) = JStr s"
| "JSON_parse (JsonArr xs) = JArr (parse_elements xs)"
| "JSON_parse (JsonObj ps) = JObj (parse_properties ps)"
| "parse_elements [] = []"
| "parse_elements (x # xs) = JSON_parse x # parse_elements xs"
| "parse_properties [] = []"
| "parse_properties (p # ps) = (fst p, JSON_parse (snd p)) # parse_properties ps"

text \<open>
  A value that JSON represents as it is: \<open>null\<close>, a boolean, an integer or another
  finite number, a string, or an array or object of such values. No \<open>undefined\<close>,
  function, \<open>NaN\<close>, infinity, \<open>-0\<close> or \<open>Date\<close> anywhere inside it.
\<close>

definition finite_number :: "number \<Rightarrow> bool" where
  "finite_number n = (case n of Integer i \<Rightarrow> True | Fraction m k \<Rightarrow> True | _ \<Rightarrow> False)"

fun json_safe :: "jsval \<Rightarrow> bool"
  and json_safe_elements :: "jsval list \<Rightarrow> bool"
  and json_safe_properties :: "(string \<times> jsval) list \<Rightarrow> bool" where
  "json_safe JUndefined = False"
| "json_safe JNull = True"
| "json_safe (JBool b) = True"
| "json_safe (JNum n) = finite_number n"
| "json_safe (JStr s) = True"
| "json_safe (JDate stamp) = False"
| "json_safe JFunction = False"
| "json_safe (JArr xs) = json_safe_elements xs"
| "json_safe (JObj ps) = json_safe_properties ps"
| "json_safe_elements [] = True"
| "json_safe_elements (x # xs) = (json_safe x \<and> json_safe_elements xs)"
| "json_safe_properties [] = True"
| "json_safe_properties (p # ps) = (json_safe (snd p) \<and> json_safe_properties ps)"


definition json_field :: "json \<Rightarrow> string \<Rightarrow> json option" where
  "json_field j k = (case j of JsonObj ps \<Rightarrow> map_of ps k | _ \<Rightarrow> None)"

subsection \<open>The event envelope\<close>

text \<open>
  An optional field of an object, as JavaScript tells its states apart: the key is
  absent, the value is \<open>undefined\<close>, the value is \<open>null\<close>, or there is a value.
  Reading a property of an options object gives \<open>undefined\<close> or the value
  (\<open>read_option\<close>); \<open>stmt.run\<close> binds \<open>undefined\<close> and \<open>null\<close> as \<open>NULL\<close>
  (\<open>bind_text\<close>); a column read back is \<open>null\<close> or a value (\<open>read_column\<close>).
\<close>

datatype 'a js_field = Absent | Undefined | Null | Value 'a

definition read_option :: "'a option \<Rightarrow> 'a js_field" where
  "read_option v = (case v of None \<Rightarrow> Undefined | Some x \<Rightarrow> Value x)"

definition bind_text :: "string js_field \<Rightarrow> string option" where
  "bind_text v = (case v of Value x \<Rightarrow> Some x | _ \<Rightarrow> None)"

definition read_column :: "string option \<Rightarrow> string js_field" where
  "read_column v = (case v of None \<Rightarrow> Null | Some x \<Rightarrow> Value x)"

text \<open>
  The interface \<open>OmniEvent\<close>. Field names follow the source; a name that two
  interfaces share carries the name of its interface.
\<close>

record Machine =
  id_machine :: string
  hostname :: "string js_field"

record Context =
  session_id_context :: "string js_field"
  actor :: "string js_field"
  phase :: "string js_field"

record EventInfo =
  kind_event :: string
  tags :: "string list js_field"

record Source =
  component :: string
  version :: "string js_field"

record Parent =
  event_id_parent :: "string js_field"
  trace_id :: "string js_field"
  span_id :: "string js_field"

record OmniEvent =
  schema_version :: string
  ts :: string
  event_id :: string
  machine :: Machine
  context_field :: Context
  event :: EventInfo
  source :: Source
  data :: jsval
  parent :: "Parent js_field"

record QueryFilters =
  kind :: "string option"
  session_id :: "string option"
  machine_id :: "string option"
  start_ts :: "string option"
  end_ts :: "string option"
  limit :: "number option"
  offset :: "number option"

subsection \<open>The table and the storage engine\<close>

text \<open>
  A row of the table \<open>events\<close> as \<open>initializeSchema\<close> creates it: \<open>TEXT NOT NULL\<close>
  columns are strings, the other columns may be \<open>NULL\<close>. The column \<open>created_at\<close>,
  filled by the engine and never read, is left out. The table is the list of its rows
  in insertion order.
\<close>

record Row =
  schema_version_col :: string
  ts_col :: string
  event_id_col :: string
  machine_id_col :: string
  machine_hostname :: "string option"
  context_session_id :: "string option"
  context_actor :: "string option"
  context_phase :: "string option"
  event_kind :: string
  event_tags :: "string option"
  source_component :: string
  source_version :: "string option"
  data_col :: json
  parent_event_id :: "string option"
  parent_trace_id :: "string option"
  parent_span_id :: "string option"

datatype Failure =
    SQLITE_ERROR
  | SQLITE_MISMATCH
  | SQLITE_IOERR
  | SQLITE_CONSTRAINT_PRIMARYKEY
  | SQLITE_CONSTRAINT_NOTNULL
  | SQLITE_CANTOPEN
  | EACCES

text \<open>
  One \<open>INSERT\<close>: the engine either appends the whole row or raises and leaves the
  table as it was. It raises on a storage fault and on a second row with the same
  \<open>event_id\<close> (the primary key).
\<close>

definition sqlite_insert :: "bool \<Rightarrow> Row list \<Rightarrow> Row \<Rightarrow> Failure + Row list" where
  "sqlite_insert fault table row =
     (if fault then Inl SQLITE_IOERR
      else if \<exists>r \<in> set table. event_id_col r = event_id_col row
        then Inl SQLITE_CONSTRAINT_PRIMARYKEY
      else Inr (table @ [row]))"

text \<open>
  The \<open>SELECT\<close> statements that \<open>queryEvents\<close> builds, as the list of the pieces it
  appends to \<open>SELECT * FROM events WHERE 1=1\<close>, with the positional parameters.
\<close>

datatype Clause =
    AND_event_kind_eq
  | AND_context_session_id_eq
  | AND_machine_id_eq
  | AND_ts_ge
  | AND_ts_le
  | ORDER_BY_ts_DESC
  | LIMIT
  | OFFSET

datatype SqlParam = PText string | PNumber number

text \<open>
  \<open>ORDER BY ts DESC\<close>. SQLite leaves the order of rows with equal \<open>ts\<close> open, and
  which order it returns depends on the plan it chooses for the statement. That choice
  is an argument of the engine: a \<open>Ranking\<close> gives, for the statement and the rows its
  \<open>WHERE\<close> selects, the order in which they come back.
\<close>

type_synonym Ranking = "Clause list \<Rightarrow> Row list \<Rightarrow> Row list"

text \<open>
  \<open>LIMIT n OFFSET m\<close>. Both must be integers of 64 bits: a number with a fraction, an
  infinity or an integer out of that range is refused with \<open>SQLITE_MISMATCH\<close> when
  the statement runs. A negative \<open>n\<close> is no limit, a negative \<open>m\<close> is zero.
\<close>

definition int64_of :: "number \<Rightarrow> int option" where
  "int64_of n =
     (case n of
        Integer i \<Rightarrow> if - (2 ^ 63) \<le> i \<and> i < 2 ^ 63 then Some i else None
      | NegZero \<Rightarrow> Some 0
      | _ \<Rightarrow> None)"

definition sql_limit :: "int \<Rightarrow> int \<Rightarrow> Row list \<Rightarrow> Row list" where
  "sql_limit n m rows =
     (if n < 0 then drop (nat m) rows else take (nat n) (drop (nat m) rows))"

text \<open>
  The engine on such a statement. A comparison with \<open>NULL\<close> is not true. SQLite's
  grammar has \<open>LIMIT\<close> alone or \<open>LIMIT ... OFFSET ...\<close>; any other tail, \<open>OFFSET\<close>
  without \<open>LIMIT\<close> among them, is a syntax error raised when the statement is prepared.
\<close>

definition where_test :: "Clause \<Rightarrow> (string \<Rightarrow> Row \<Rightarrow> bool) option" where
  "where_test c =
     (case c of
        AND_event_kind_eq \<Rightarrow> Some (\<lambda>v r. event_kind r = v)
      | AND_context_session_id_eq \<Rightarrow> Some (\<lambda>v r. context_session_id r = Some v)
      | AND_machine_id_eq \<Rightarrow> Some (\<lambda>v r. machine_id_col r = v)
      | AND_ts_ge \<Rightarrow> Some (\<lambda>v r. ts_col r \<ge> v)
      | AND_ts_le \<Rightarrow> Some (\<lambda>v r. ts_col r \<le> v)
      | _ \<Rightarrow> None)"

definition sqlite_tail :: "Ranking \<Rightarrow> Clause list \<Rightarrow> Row list \<Rightarrow> Clause list \<Rightarrow> SqlParam list
    \<Rightarrow> Failure + Row list" where
  "sqlite_tail rank statement table q ps =
     (if q = [ORDER_BY_ts_DESC] \<and> ps = [] then Inr (rank statement table)
      else if q = [ORDER_BY_ts_DESC, LIMIT] then
        (case ps of
           [PNumber n] \<Rightarrow>
             (case int64_of n of
                None \<Rightarrow> Inl SQLITE_MISMATCH
              | Some i \<Rightarrow> Inr (sql_limit i 0 (rank statement table)))
         | _ \<Rightarrow> Inl SQLITE_ERROR)
      else if q = [ORDER_BY_ts_DESC, LIMIT, OFFSET] then
        (case ps of
           [PNumber n, PNumber m] \<Rightarrow>
             (case int64_of n of
                None \<Rightarrow> Inl SQLITE_MISMATCH
              | Some i \<Rightarrow>
                  (case int64_of m of
                     None \<Rightarrow> Inl SQLITE_MISMATCH
                   | Some j \<Rightarrow> Inr (sql_limit i j (rank statement table))))
         | _ \<Rightarrow> Inl SQLITE_ERROR)
      else Inl SQLITE_ERROR)"

fun sqlite_run :: "Ranking \<Rightarrow> Clause list \<Rightarrow> Row list \<Rightarrow> Clause list \<Rightarrow> SqlParam list
    \<Rightarrow> Failure + Row list" where
  "sqlite_run rank statement table [] ps = sqlite_tail rank statement table [] ps"
| "sqlite_run rank statement table (c # q) ps =
     (case where_test c of
        None \<Rightarrow> sqlite_tail rank statement table (c # q) ps
      | Some test \<Rightarrow>
          (case ps of
             PText v # ps' \<Rightarrow> sqlite_run rank statement (filter (test v) table) q ps'
           | _ \<Rightarrow> Inl SQLITE_ERROR))"

definition sqlite_all :: "Ranking \<Rightarrow> Row list \<Rightarrow> Clause list \<Rightarrow> SqlParam list
    \<Rightarrow> Failure + Row list" where
  "sqlite_all rank table statement ps = sqlite_run rank statement table statement ps"

subsection \<open>The instance and its write path\<close>

record Observability =
  db :: "Row list"
  machineId :: string
  dataDir :: string
  machineIdFile :: string

text \<open>
  What one call of \<open>writeEvent\<close> reads from outside: \<open>new Date().toISOString()\<close> in
  \<open>getCurrentTimestamp\<close>, \<open>Date.now()\<close> and \<open>randomBytes(8)\<close> in \<open>generateULID\<close>,
  and whether the engine meets a storage fault while it runs the \<open>INSERT\<close>.
\<close>

record Env =
  iso_now :: string
  date_now :: nat
  random8 :: "8 word list"
  storage_fault :: bool

text \<open>The option objects: the three parent links, the session, and what
  \<open>writeEvent\<close> accepts besides.\<close>

record ParentOptions =
  parentEventId :: "string option"
  parentTraceId :: "string option"
  parentSpanId :: "string option"

record SessionOptions = ParentOptions +
  sessionId :: "string option"

record WriteEventOptions = SessionOptions +
  actor_opt :: "string option"
  phase_opt :: "string option"
  component_opt :: "string option"
  tags_opt :: "string list option"

text \<open>
  \<open>writeEventToDb\<close>. \<open>insert_row\<close> is the sixteen parameters that \<open>stmt.run\<close>
  binds: \<open>tags?.join(",") || null\<close> gives \<open>NULL\<close> for tags that are not there and
  for tags whose joined text is empty; \<open>parent?.event_id\<close> is \<open>undefined\<close> when the
  parent is not there. A \<open>data\<close> without JSON text would be bound as \<open>NULL\<close> and
  refused by the column's \<open>NOT NULL\<close>.
\<close>

definition parent_link :: "Parent js_field \<Rightarrow> (Parent \<Rightarrow> string js_field) \<Rightarrow> string js_field" where
  "parent_link p link = (case p of Value x \<Rightarrow> link x | _ \<Rightarrow> Undefined)"

definition insert_row :: "OmniEvent \<Rightarrow> json \<Rightarrow> Row" where
  "insert_row e text =
     \<lparr> schema_version_col = schema_version e,
       ts_col = ts e,
       event_id_col = event_id e,
       machine_id_col = id_machine (machine e),
       machine_hostname = bind_text (hostname (machine e)),
       context_session_id = bind_text (session_id_context (context_field e)),
       context_actor = bind_text (actor (context_field e)),
       context_phase = bind_text (phase (context_field e)),
       event_kind = kind_event (event e),
       event_tags =
         (case tags (event e) of
            Value tgs \<Rightarrow> if join_comma tgs = [] then None else Some (join_comma tgs)
          | _ \<Rightarrow> None),
       source_component = component (source e),
       source_version = bind_text (version (source e)),
       data_col = text,
       parent_event_id = bind_text (parent_link (parent e) event_id_parent),
       parent_trace_id = bind_text (parent_link (parent e) trace_id),
       parent_span_id = bind_text (parent_link (parent e) span_id) \<rparr>"

definition writeEventToDb :: "Observability \<Rightarrow> Env \<Rightarrow> OmniEvent \<Rightarrow> Failure + Observability" where
  "writeEventToDb obs env e =
     (case JSON_stringify (data e) of
        None \<Rightarrow> Inl SQLITE_CONSTRAINT_NOTNULL
      | Some text \<Rightarrow>
          (case sqlite_insert (storage_fault env) (db obs) (insert_row e text) of
             Inl failure \<Rightarrow> Inl failure
           | Inr table \<Rightarrow> Inr (obs\<lparr>db := table\<rparr>)))"

text \<open>
  \<open>createBaseEvent\<close>. The caller's \<open>{...options, component: c}\<close> is the pair of the
  options and \<open>c\<close>. The object it builds has no \<open>hostname\<close> and no \<open>version\<close> key;
  the keys of \<open>context\<close>, \<open>tags\<close> and \<open>parent\<close> are there, with the value
  \<open>undefined\<close> for an option that was not passed.
\<close>

definition createBaseEvent ::
  "Observability \<Rightarrow> Env \<Rightarrow> string \<Rightarrow> (string \<times> jsval) list \<Rightarrow> 'a WriteEventOptions_scheme
     \<Rightarrow> string \<Rightarrow> OmniEvent" where
  "createBaseEvent obs env k d options c =
     \<lparr> schema_version = ''1.0'',
       ts = iso_now env,
       event_id = generateULID (date_now env) (random8 env),
       machine = \<lparr> id_machine = machineId obs, hostname = Absent \<rparr>,
       context_field = \<lparr> session_id_context = read_option (sessionId options),
                         actor = read_option (actor_opt options),
                         phase = read_option (phase_opt options) \<rparr>,
       event = \<lparr> kind_event = k, tags = read_option (tags_opt options) \<rparr>,
       source = \<lparr> component = c, version = Absent \<rparr>,
       data = JObj d,
       parent = Value \<lparr> event_id_parent = read_option (parentEventId options),
                        trace_id = read_option (parentTraceId options),
                        span_id = read_option (parentSpanId options) \<rparr> \<rparr>"

text \<open>
  \<open>writeEvent\<close> returns the new identifier, or the failure that \<open>writeEventToDb\<close>
  raised; the instance comes back in both cases.
\<close>

definition writeEvent ::
  "Observability \<Rightarrow> Env \<Rightarrow> string \<Rightarrow> (string \<times> jsval) list \<Rightarrow> 'a WriteEventOptions_scheme
     \<Rightarrow> (Failure + string) \<times> Observability" where
  "writeEvent obs env k d options =
     (let e = createBaseEvent obs env k d options
                (or_else (component_opt options) ''constellation'')
      in case writeEventToDb obs env e of
           Inl failure \<Rightarrow> (Inl failure, obs)
         | Inr obs' \<Rightarrow> (Inr (event_id e), obs'))"

subsection \<open>The query interface\<close>

text \<open>The object that \<open>queryEvents\<close> builds from a row: a column that is \<open>NULL\<close>
  comes back as \<open>null\<close>, except \<open>event_tags\<close>, whose \<open>NULL\<close> and empty text give
  \<open>undefined\<close>.\<close>

definition row_to_event :: "Row \<Rightarrow> OmniEvent" where
  "row_to_event row =
     \<lparr> schema_version = schema_version_col row,
       ts = ts_col row,
       event_id = event_id_col row,
       machine = \<lparr> id_machine = machine_id_col row,
                   hostname = read_column (machine_hostname row) \<rparr>,
       context_field = \<lparr> session_id_context = read_column (context_session_id row),
                         actor = read_column (context_actor row),
                         phase = read_column (context_phase row) \<rparr>,
       event = \<lparr> kind_event = event_kind row,
                 tags = (case event_tags row of
                           None \<Rightarrow> Undefined
                         | Some x \<Rightarrow> if x = [] then Undefined else Value (split_comma x)) \<rparr>,
       source = \<lparr> component = source_component row,
                  version = read_column (source_version row) \<rparr>,
       data = JSON_parse (data_col row),
       parent = Value \<lparr> event_id_parent = read_column (parent_event_id row),
                        trace_id = read_column (parent_trace_id row),
                        span_id = read_column (parent_span_id row) \<rparr> \<rparr>"

text \<open>The statement and its parameters, built piece by piece as the source does.\<close>

definition add_text :: "Clause \<Rightarrow> string option \<Rightarrow> Clause list \<times> SqlParam list
    \<Rightarrow> Clause list \<times> SqlParam list" where
  "add_text c v qp =
     (case v of
        None \<Rightarrow> qp
      | Some x \<Rightarrow> if x = [] then qp else (fst qp @ [c], snd qp @ [PText x]))"

definition add_number :: "Clause \<Rightarrow> number option \<Rightarrow> Clause list \<times> SqlParam list
    \<Rightarrow> Clause list \<times> SqlParam list" where
  "add_number c v qp =
     (case v of
        None \<Rightarrow> qp
      | Some x \<Rightarrow> if falsy_number x then qp else (fst qp @ [c], snd qp @ [PNumber x]))"

definition build_query :: "QueryFilters \<Rightarrow> Clause list \<times> SqlParam list" where
  "build_query filters =
     (let qp = ([], []);
          qp = add_text AND_event_kind_eq (kind filters) qp;
          qp = add_text AND_context_session_id_eq (session_id filters) qp;
          qp = add_text AND_machine_id_eq (machine_id filters) qp;
          qp = add_text AND_ts_ge (start_ts filters) qp;
          qp = add_text AND_ts_le (end_ts filters) qp;
          qp = (fst qp @ [ORDER_BY_ts_DESC], snd qp);
          qp = add_number LIMIT (limit filters) qp;
          qp = add_number OFFSET (offset filters) qp
      in qp)"

definition queryEvents :: "Ranking \<Rightarrow> Observability \<Rightarrow> QueryFilters
    \<Rightarrow> Failure + OmniEvent list" where
  "queryEvents rank obs filters =
     (case sqlite_all rank (db obs) (fst (build_query filters)) (snd (build_query filters)) of
        Inl failure \<Rightarrow> Inl failure
      | Inr rows \<Rightarrow> Inr (map row_to_event rows))"

subsection \<open>The typed writers\<close>







text \<open>An optional string as a property value, and an array of strings.\<close>

definition opt_string :: "string option \<Rightarrow> jsval" where
  "opt_string v = (case v of None \<Rightarrow> JUndefined | Some x \<Rightarrow> JStr x)"

definition string_array :: "string list \<Rightarrow> jsval" where
  "string_array xs = JArr (map JStr xs)"

text \<open>
  The assignment \<open>data.k = v\<close>: an existing property keeps its place and takes the new
  value, a new one is added at the end. Then the three guards of the writers:
  \<open>if (x) data.k = x\<close> on a string, the same on an object or an array (truthy whenever
  present), and \<open>if (x !== undefined) data.k = x\<close>.
\<close>

fun set_property :: "(string \<times> jsval) list \<Rightarrow> string \<Rightarrow> jsval \<Rightarrow> (string \<times> jsval) list" where
  "set_property [] k v = [(k, v)]"
| "set_property (p # ps) k v = (if fst p = k then (k, v) # ps else p # set_property ps k v)"

definition set_if_truthy :: "string \<Rightarrow> string option \<Rightarrow> (string \<times> jsval) list
    \<Rightarrow> (string \<times> jsval) list" where
  "set_if_truthy k v ps =
     (case v of None \<Rightarrow> ps | Some x \<Rightarrow> if x = [] then ps else set_property ps k (JStr x))"

definition set_if_present :: "string \<Rightarrow> jsval option \<Rightarrow> (string \<times> jsval) list
    \<Rightarrow> (string \<times> jsval) list" where
  "set_if_present k v ps = (case v of None \<Rightarrow> ps | Some x \<Rightarrow> set_property ps k x)"


text \<open>The options object that a typed writer hands to \<open>writeEvent\<close>: session,
  component, phase and tags as given, the parent links of the writer's own options.\<close>

definition options_object :: "string option \<Rightarrow> string \<Rightarrow> string option \<Rightarrow> string list option
    \<Rightarrow> 'a ParentOptions_scheme \<Rightarrow> WriteEventOptions" where
  "options_object sid c ph tg options =
     \<lparr> parentEventId = parentEventId options,
       parentTraceId = parentTraceId options,
       parentSpanId = parentSpanId options,
       sessionId = sid,
       actor_opt = None,
       phase_opt = ph,
       component_opt = Some c,
       tags_opt = tg \<rparr>"













record ErrorOptions = SessionOptions +
  errorCode :: "string option"
  retryable :: "bool option"
  transient :: "bool option"
  toolName_error :: "string option"
  invariantsViolated :: "string list option"
  rawOutput :: "string option"
  recoveryActions :: "string list option"

text \<open>\<open>x ?? false\<close> on an optional boolean.\<close>

definition or_false :: "bool option \<Rightarrow> bool" where
  "or_false v = (case v of None \<Rightarrow> False | Some b \<Rightarrow> b)"

definition writeError ::
  "Observability \<Rightarrow> Env \<Rightarrow> string \<Rightarrow> string \<Rightarrow> ErrorOptions
     \<Rightarrow> (Failure + string) \<times> Observability" where
  "writeError obs env errorType message options =
     (let d = [(''error_type'', JStr errorType),
               (''message'', JStr message),
               (''context_session_id'', opt_string (sessionId options)),
               (''retryable'', JBool (or_false (retryable options))),
               (''transient'', JBool (or_false (transient options)))];
          d = set_if_truthy ''error_code'' (errorCode options) d;
          d = set_if_truthy ''tool_name'' (toolName_error options) d;
          d = set_if_present ''invariants_violated''
                (map_option string_array (invariantsViolated options)) d;
          d = set_if_truthy ''raw_output'' (rawOutput options) d;
          d = set_if_present ''recovery_actions''
                (map_option string_array (recoveryActions options)) d
      in writeEvent obs env ''error'' d
           (options_object (sessionId options) ''error-handler'' None
              (Some [''error'', errorType]) options))"










subsection \<open>Machine identity, construction and the singleton\<close>

text \<open>
  The world outside the process: the environment variable \<open>MACHINE_ID\<close>, the working
  directory, the text files and the database files by path, and the paths at which a
  file can be created or written. The events table of a database file stands for the
  file.
\<close>

record World =
  MACHINE_ID :: "string option"
  cwd :: string
  files :: "string \<Rightarrow> string option"
  databases :: "string \<Rightarrow> Row list option"
  can_write :: "string \<Rightarrow> bool"

text \<open>
  \<open>path.resolve\<close>, from the working directory: an absolute segment replaces what
  came before it, an empty one is skipped, any other is appended. The normalisation
  of \<open>.\<close>, \<open>..\<close> and repeated separators is not modelled.
\<close>

definition resolve :: "string \<Rightarrow> string list \<Rightarrow> string" where
  "resolve base segments =
     foldl (\<lambda>p seg. case seg of
                       [] \<Rightarrow> p
                     | c # rest \<Rightarrow> if c = CHR ''/'' then seg else p @ ''/'' @ seg)
       base segments"

definition writeFileSync :: "World \<Rightarrow> string \<Rightarrow> string \<Rightarrow> Failure + World" where
  "writeFileSync w path content =
     (if can_write w path then Inr (w\<lparr>files := (files w)(path \<mapsto> content)\<rparr>)
      else Inl EACCES)"

text \<open>\<open>initializeMachineId\<close>, with the bytes of \<open>randomBytes(3)\<close>.\<close>

definition initializeMachineId :: "World \<Rightarrow> string \<Rightarrow> 8 word list \<Rightarrow> (Failure + string) \<times> World" where
  "initializeMachineId w file randomBytes3 =
     (let from_file_or_new =
        (case files w file of
           Some content \<Rightarrow> (Inr (trim content), w)
         | None \<Rightarrow>
             (let randomStr = substring (toString_hex randomBytes3) 0 6;
                  newMachineId = ''constellation-'' @ randomStr
              in case writeFileSync w file newMachineId of
                   Inl failure \<Rightarrow> (Inl failure, w)
                 | Inr w' \<Rightarrow> (Inr newMachineId, w')))
      in case MACHINE_ID w of
           None \<Rightarrow> from_file_or_new
         | Some m \<Rightarrow> if m = [] then from_file_or_new else (Inr m, w))"

text \<open>\<open>new Database(path)\<close> followed by \<open>initializeSchema\<close>: an existing file is
  opened with the rows it holds, a missing one is created with an empty table.\<close>

definition open_database :: "World \<Rightarrow> string \<Rightarrow> (Failure + Row list) \<times> World" where
  "open_database w path =
     (case databases w path of
        Some table \<Rightarrow> (Inr table, w)
      | None \<Rightarrow>
          if can_write w path then (Inr [], w\<lparr>databases := (databases w)(path \<mapsto> [])\<rparr>)
          else (Inl SQLITE_CANTOPEN, w))"

text \<open>The constructor; its argument defaults to \<open>"data"\<close>.\<close>

definition Observability_new :: "World \<Rightarrow> 8 word list \<Rightarrow> string option
    \<Rightarrow> (Failure + Observability) \<times> World" where
  "Observability_new w randomBytes3 dataDir_arg =
     (let dir = resolve (cwd w) [case dataDir_arg of None \<Rightarrow> ''data'' | Some d \<Rightarrow> d];
          file = resolve (cwd w) [dir, ''.machine_id'']
      in case initializeMachineId w file randomBytes3 of
           (Inl failure, w1) \<Rightarrow> (Inl failure, w1)
         | (Inr mid, w1) \<Rightarrow>
             (case open_database w1 (resolve (cwd w) [dir, ''observability.db'']) of
                (Inl failure, w2) \<Rightarrow> (Inl failure, w2)
              | (Inr table, w2) \<Rightarrow>
                  (Inr \<lparr> db = table, machineId = mid, dataDir = dir, machineIdFile = file \<rparr>,
                   w2)))"

text \<open>
  The module variable \<open>observabilityInstance\<close> is passed in and returned. A JavaScript
  instance is a reference: a caller that writes through the instance it got puts the
  updated instance back into the variable.
\<close>

definition initializeObservability :: "Observability option \<Rightarrow> World \<Rightarrow> 8 word list
    \<Rightarrow> string option \<Rightarrow> (Failure + Observability) \<times> Observability option \<times> World" where
  "initializeObservability observabilityInstance w randomBytes3 dataDir_arg =
     (case observabilityInstance of
        Some obs \<Rightarrow> (Inr obs, observabilityInstance, w)
      | None \<Rightarrow>
          (case Observability_new w randomBytes3
                  (Some (case dataDir_arg of None \<Rightarrow> ''data'' | Some d \<Rightarrow> d)) of
             (Inl failure, w') \<Rightarrow> (Inl failure, None, w')
           | (Inr obs, w') \<Rightarrow> (Inr obs, Some obs, w')))"

definition getObservability :: "Observability option \<Rightarrow> World \<Rightarrow> 8 word list
    \<Rightarrow> (Failure + Observability) \<times> Observability option \<times> World" where
  "getObservability observabilityInstance w randomBytes3 =
     (case observabilityInstance of
        Some obs \<Rightarrow> (Inr obs, observabilityInstance, w)
      | None \<Rightarrow>
          (case Observability_new w randomBytes3 None of
             (Inl failure, w') \<Rightarrow> (Inl failure, None, w')
           | (Inr obs, w') \<Rightarrow> (Inr obs, Some obs, w')))"

subsection \<open>Vocabulary of the query properties\<close>

text \<open>
  A ranking is one that \<open>ORDER BY ts DESC\<close> allows when, for every statement and every
  list of rows, it returns exactly those rows (each as often as it is there) in
  descending order of \<open>ts\<close>.
\<close>

definition ranks_by_ts_desc :: "Ranking \<Rightarrow> bool" where
  "ranks_by_ts_desc rank =
     (\<forall>statement rows.
        mset (rank statement rows) = mset rows
        \<and> sorted_wrt (\<lambda>a b. ts_col b \<le> ts_col a) (rank statement rows))"

text \<open>
  \<open>row_matches\<close> says that a row satisfies every filter field that is a non-empty
  string (the fields that \<open>queryEvents\<close> tests as true).
\<close>

definition row_matches :: "QueryFilters \<Rightarrow> Row \<Rightarrow> bool" where
  "row_matches f r =
     ((truthy_string (kind f) \<longrightarrow> kind f = Some (event_kind r))
      \<and> (truthy_string (session_id f) \<longrightarrow> session_id f = context_session_id r)
      \<and> (truthy_string (machine_id f) \<longrightarrow> machine_id f = Some (machine_id_col r))
      \<and> (truthy_string (start_ts f) \<longrightarrow> (\<exists>v. start_ts f = Some v \<and> v \<le> ts_col r))
      \<and> (truthy_string (end_ts f) \<longrightarrow> (\<exists>v. end_ts f = Some v \<and> ts_col r \<le> v)))"

text \<open>
  A pagination is well-formed when limit and offset, where they are supplied (tested as
  true: not \<open>0\<close>, \<open>-0\<close> or \<open>NaN\<close>), are integers of 64 bits, and an offset comes with
  a limit. \<open>paginate\<close> cuts a ranked list by a well-formed pagination: from the
  position after the offset on, at most as many rows as the limit says.
\<close>

definition integer_or_absent :: "number option \<Rightarrow> bool" where
  "integer_or_absent v = (truthy_number v \<longrightarrow> (\<exists>n i. v = Some n \<and> int64_of n = Some i))"


definition supplied_integer :: "number option \<Rightarrow> int option" where
  "supplied_integer v =
     (case v of None \<Rightarrow> None | Some n \<Rightarrow> if falsy_number n then None else int64_of n)"

definition paginate :: "QueryFilters \<Rightarrow> Row list \<Rightarrow> Row list" where
  "paginate f rows =
     (case supplied_integer (limit f) of
        None \<Rightarrow> rows
      | Some n \<Rightarrow>
          sql_limit n (case supplied_integer (offset f) of None \<Rightarrow> 0 | Some m \<Rightarrow> m) rows)"

text \<open>
  The rows that satisfy the filters of a query, in the order in which the engine ranks
  them for the statement of that query.
\<close>

definition ranked_matches :: "Ranking \<Rightarrow> Observability \<Rightarrow> QueryFilters \<Rightarrow> Row list" where
  "ranked_matches rank obs f = rank (fst (build_query f)) (filter (row_matches f) (db obs))"

text \<open>Proof devices: the statement that \<open>build_query\<close> builds, in one piece.\<close>

definition where_item :: "Clause \<Rightarrow> string option \<Rightarrow> (Clause \<times> string) list" where
  "where_item c v = (case v of None \<Rightarrow> [] | Some x \<Rightarrow> if x = [] then [] else [(c, x)])"

definition where_pairs :: "QueryFilters \<Rightarrow> (Clause \<times> string) list" where
  "where_pairs f =
     where_item AND_event_kind_eq (kind f) @ where_item AND_context_session_id_eq (session_id f)
     @ where_item AND_machine_id_eq (machine_id f) @ where_item AND_ts_ge (start_ts f)
     @ where_item AND_ts_le (end_ts f)"

definition tail_clauses :: "QueryFilters \<Rightarrow> Clause list" where
  "tail_clauses f = ORDER_BY_ts_DESC #
     (if truthy_number (limit f) then [LIMIT] else [])
     @ (if truthy_number (offset f) then [OFFSET] else [])"

definition tail_params :: "QueryFilters \<Rightarrow> SqlParam list" where
  "tail_params f =
     (case limit f of None \<Rightarrow> [] | Some x \<Rightarrow> if falsy_number x then [] else [PNumber x])
     @ (case offset f of None \<Rightarrow> [] | Some x \<Rightarrow> if falsy_number x then [] else [PNumber x])"

subsection \<open>Vocabulary of the write properties\<close>

text \<open>
  Tags that the flattened \<open>event_tags\<close> column gives back as they were: none at all,
  or a list that is neither empty nor the single empty tag and has no comma inside a tag.
\<close>

definition flat_tags :: "string list option \<Rightarrow> bool" where
  "flat_tags tg =
     (case tg of
        None \<Rightarrow> True
      | Some xs \<Rightarrow> xs \<noteq> [] \<and> xs \<noteq> [[]] \<and> (\<forall>t \<in> set xs. CHR '','' \<notin> set t))"

text \<open>
  An envelope as it reads back at best: every optional text field that has a value
  keeps it, and every one that has none (an absent key, \<open>undefined\<close> or \<open>null\<close>) is
  \<open>null\<close>; identifiers, timestamp, kind, component, tags and data are as they were.
\<close>

definition as_null :: "'a js_field \<Rightarrow> 'a js_field" where
  "as_null v = (case v of Value x \<Rightarrow> Value x | _ \<Rightarrow> Null)"

definition unset_as_null :: "OmniEvent \<Rightarrow> OmniEvent" where
  "unset_as_null e =
     e\<lparr> machine := \<lparr> id_machine = id_machine (machine e),
                      hostname = as_null (hostname (machine e)) \<rparr>,
        context_field := \<lparr> session_id_context = as_null (session_id_context (context_field e)),
                            actor = as_null (actor (context_field e)),
                            phase = as_null (phase (context_field e)) \<rparr>,
        source := \<lparr> component = component (source e),
                     version = as_null (version (source e)) \<rparr>,
        parent := Value \<lparr> event_id_parent = as_null (parent_link (parent e) event_id_parent),
                          trace_id = as_null (parent_link (parent e) trace_id),
                          span_id = as_null (parent_link (parent e) span_id) \<rparr> \<rparr>"




definition has_field :: "(string \<times> jsval) list \<Rightarrow> string \<Rightarrow> bool" where
  "has_field ps k = (\<exists>v. (k, v) \<in> set ps \<and> JSON_stringify v \<noteq> None)"

subsection \<open>Fixtures\<close>

text \<open>Concrete rankings, filters, rows, instances, clock readings and options, for
  the evaluations below. \<open>latest_first\<close> is the ranking that puts the later of two rows
  with equal \<open>ts\<close> first.\<close>

definition latest_first :: Ranking where
  "latest_first statement rows = rev (sort_key ts_col rows)"

definition no_filters :: QueryFilters where
  "no_filters = \<lparr> kind = None, session_id = None, machine_id = None, start_ts = None,
                  end_ts = None, limit = None, offset = None \<rparr>"

definition row_fixture :: "string \<Rightarrow> string \<Rightarrow> string \<Rightarrow> string option \<Rightarrow> Row" where
  "row_fixture i t k s =
     \<lparr> schema_version_col = ''1.0'', ts_col = t, event_id_col = i,
       machine_id_col = ''constellation-0a1b2c'', machine_hostname = None,
       context_session_id = s, context_actor = None, context_phase = None,
       event_kind = k, event_tags = None, source_component = ''constellation'',
       source_version = None, data_col = JsonObj [], parent_event_id = None,
       parent_trace_id = None, parent_span_id = None \<rparr>"

definition obs_fixture :: "Row list \<Rightarrow> Observability" where
  "obs_fixture table =
     \<lparr> db = table, machineId = ''constellation-0a1b2c'', dataDir = ''/app/data'',
       machineIdFile = ''/app/data/.machine_id'' \<rparr>"

definition env_fixture :: "string \<Rightarrow> nat \<Rightarrow> bool \<Rightarrow> Env" where
  "env_fixture stamp now fault =
     \<lparr> iso_now = stamp, date_now = now, random8 = [0, 1, 2, 3, 4, 5, 6, 7],
       storage_fault = fault \<rparr>"

definition options_fixture :: "string list option \<Rightarrow> WriteEventOptions" where
  "options_fixture tg =
     \<lparr> parentEventId = None, parentTraceId = None, parentSpanId = None, sessionId = Some ''S1'',
       actor_opt = None, phase_opt = None, component_opt = None, tags_opt = tg \<rparr>"





definition error_options :: "string option \<Rightarrow> ErrorOptions" where
  "error_options s =
     \<lparr> parentEventId = None, parentTraceId = None, parentSpanId = None, sessionId = s,
       errorCode = None, retryable = None, transient = None, toolName_error = None,
       invariantsViolated = None, rawOutput = None, recoveryActions = None \<rparr>"

text \<open>A world with the working directory \<open>/app\<close>, no database file, and every
  path writable.\<close>

definition world_fixture :: "string option \<Rightarrow> (string \<Rightarrow> string option) \<Rightarrow> World" where
  "world_fixture override stored =
     \<lparr> MACHINE_ID = override, cwd = ''/app'', files = stored, databases = Map.empty,
       can_write = (\<lambda>path. True) \<rparr>"


section \<open>Identifiers\<close>

lemma upper_digit_code:
  "d < 36 \<Longrightarrow>
     of_char (toUpperCase_char (digit_char d)) = (if d < 10 then 48 + d else 55 + d)"
  by (simp add: digit_char_def toUpperCase_char_def less_eq_char_def)

lemma upper_digit_mono:
  assumes "a < b" "b < 36"
  shows "toUpperCase_char (digit_char a) < toUpperCase_char (digit_char b)"
  using assms by (simp add: less_char_def upper_digit_code)

lemma length_fixed36 [simp]: "length (fixed36 k n) = k"
  by (induction k arbitrary: n) auto

lemma less_append_same_length:
  fixes xs ys :: "'a::linorder list"
  assumes "xs < ys" "length xs = length ys"
  shows "xs @ us < ys @ vs"
  using assms unfolding list_less_def by (simp add: lexord_sufI)

lemma char_of_48: "char_of (48::nat) = CHR ''0''"
  by (simp add: char_of_eq_iff)

lemma fixed36_zero: "fixed36 k 0 = replicate k (CHR ''0'')"
  by (induction k)
     (auto simp: digit_char_def toUpperCase_char_def less_eq_char_def
        replicate_append_same char_of_48)

lemma fixed36_mono: "a < b \<Longrightarrow> b < 36 ^ k \<Longrightarrow> fixed36 k a < fixed36 k b"
proof (induction k arbitrary: a b)
  case 0
  then show ?case by simp
next
  case (Suc k)
  have bk: "b div 36 < 36 ^ k"
    using Suc.prems(2) by (simp add: less_mult_imp_div_less mult.commute)
  show ?case
  proof (cases "a div 36 < b div 36")
    case True
    then have "fixed36 k (a div 36) < fixed36 k (b div 36)"
      using Suc.IH bk by blast
    then show ?thesis by (simp add: less_append_same_length)
  next
    case False
    then have eq: "a div 36 = b div 36"
      using Suc.prems(1) by (simp add: div_le_mono order_class.order_eq_iff)
    then have "a mod 36 < b mod 36"
      using Suc.prems(1) by (metis div_mult_mod_eq nat_add_left_cancel_less)
    then have "toUpperCase_char (digit_char (a mod 36))
        < toUpperCase_char (digit_char (b mod 36))"
      by (simp add: upper_digit_mono)
    then show ?thesis using eq by (simp add: list_less_def lexord_append_leftI)
  qed
qed

lemma padStart_char: "padStart n [c] s = replicate (n - length s) c @ s"
  by (induction "n - length s" arbitrary: n) (auto simp: padStart_def)

lemma toString36_fixed36:
  "n < 36 ^ k \<Longrightarrow> 0 < k \<Longrightarrow>
     replicate (k - length (toString36 n)) (CHR ''0'') @ toUpperCase (toString36 n)
       = fixed36 k n
     \<and> length (toString36 n) \<le> k"
proof (induction n arbitrary: k rule: toString36.induct)
  case (1 n)
  obtain j where k: "k = Suc j" using "1.prems"(2) by (cases k) auto
  show ?case
  proof (cases "n < 36")
    case True
    then show ?thesis
      by (simp add: k toString36.simps[of n] toUpperCase_def fixed36_zero)
  next
    case False
    have nj: "n div 36 < 36 ^ j"
      using "1.prems"(1) k by (simp add: less_mult_imp_div_less mult.commute)
    have j0: "0 < j" using False nj by (cases j) auto
    from "1.IH"[OF False nj j0] show ?thesis
      using False by (simp add: k toString36.simps[of n] toUpperCase_def Suc_diff_le)
  qed
qed

lemma length_toString_hex [simp]: "length (toString_hex bs) = 2 * length bs"
  by (induction bs) (auto simp: toString_hex_def)

lemma toUpperCase_append: "toUpperCase (a @ b) = toUpperCase a @ toUpperCase b"
  by (simp add: toUpperCase_def)

lemma length_toUpperCase [simp]: "length (toUpperCase s) = length s"
  by (simp add: toUpperCase_def)

text \<open>An identifier is the clock value in fourteen base-36 digits, then twelve
  hexadecimal digits of the random bytes.\<close>

lemma generateULID_layout:
  assumes "now < 36 ^ 14" "length bs = 8"
  shows "generateULID now bs = fixed36 14 now @ random_part bs"
proof -
  have f: "replicate (14 - length (toString36 now)) (CHR ''0'') @ toUpperCase (toString36 now)
      = fixed36 14 now"
    using toString36_fixed36[of now 14] assms(1) by simp
  have r: "substring (toString_hex bs) 0 12 = take 12 (toString_hex bs)"
    using assms(2) by (simp add: substring_def)
  have "generateULID now bs =
      replicate (26 - (length (toString36 now) + 12)) (CHR ''0'')
        @ toUpperCase (toString36 now) @ random_part bs"
    using assms(2)
    by (simp add: generateULID_def r padStart_char toUpperCase_append random_part_def)
  also have "26 - (length (toString36 now) + 12) = 14 - length (toString36 now)"
    by simp
  finally show ?thesis using f by (metis append.assoc)
qed

lemma generateULID_later_tick:
  assumes "now1 < now2" "now2 < 36 ^ 14" "length r1 = 8" "length r2 = 8"
  shows "generateULID now1 r1 < generateULID now2 r2"
proof -
  have "now1 < 36 ^ 14" using assms(1,2) by simp
  then show ?thesis
    using assms by (simp add: generateULID_layout fixed36_mono less_append_same_length)
qed

lemma generateULID_same_tick:
  assumes "now < 36 ^ 14" "length r1 = 8" "length r2 = 8"
  shows "generateULID now r1 < generateULID now r2 \<longleftrightarrow> random_part r1 < random_part r2"
  using assms by (simp add: generateULID_layout list_less_def lexord_same_pref_iff)

text \<open>
  C1, as amended. Calls that read strictly increasing clock values (below \<open>36 ^ 14\<close>
  milliseconds, which every \<open>Date.now()\<close> is) return strictly increasing identifiers,
  whatever their random bytes.
\<close>

theorem generateULID_increasing_over_ticks:
  assumes "sorted_wrt (<) (map fst calls)"
    and "\<forall>c \<in> set calls. fst c < 36 ^ 14 \<and> length (snd c) = 8"
  shows "sorted_wrt (<) (generateULID_calls calls)"
  using assms unfolding generateULID_calls_def
  by (induction calls) (auto simp: generateULID_later_tick)

theorem generateULID_increasing_over_ticks_witness:
  "sorted_wrt (<) (map fst
      [(1700000000000, [255, 255, 255, 255, 255, 255, 255, 255 :: 8 word]),
       (1700000000001 :: nat, [0, 1, 2, 3, 4, 5, 6, 7])])
   \<and> sorted_wrt (<) (generateULID_calls
      [(1700000000000, [255, 255, 255, 255, 255, 255, 255, 255]),
       (1700000000001, [0, 1, 2, 3, 4, 5, 6, 7])])"
  using generateULID_increasing_over_ticks
    [of "[(1700000000000, [255, 255, 255, 255, 255, 255, 255, 255]),
          (1700000000001, [0, 1, 2, 3, 4, 5, 6, 7])]"]
  by simp

text \<open>
  C1, as stated, fails: two calls within one millisecond, the first drawing the random
  bytes \<open>ff ff ...\<close> and the second \<open>00 01 ...\<close>, return identifiers in decreasing order.
\<close>

theorem generateULID_same_tick_counterexample:
  "\<not> sorted_wrt (<) (generateULID_calls
      [(1700000000000, [255, 255, 255, 255, 255, 255, 255, 255]),
       (1700000000000, [0, 1, 2, 3, 4, 5, 6, 7])])"
  by (simp add: generateULID_calls_def generateULID_same_tick random_part_def
      toString_hex_def toUpperCase_def toUpperCase_char_def digit_char_def
      less_eq_char_def less_char_def)


section \<open>The query interface\<close>

lemma add_text_eq:
  "add_text c v qp =
     (fst qp @ map fst (where_item c v), snd qp @ map (\<lambda>p. PText (snd p)) (where_item c v))"
  by (cases v) (auto simp: add_text_def where_item_def)

lemma add_number_eq:
  "add_number c v qp =
     (fst qp @ (if truthy_number v then [c] else []),
      snd qp @ (case v of None \<Rightarrow> [] | Some x \<Rightarrow> if falsy_number x then [] else [PNumber x]))"
  by (cases v) (auto simp: add_number_def truthy_number_def)

lemma build_query_eq:
  "build_query f =
     (map fst (where_pairs f) @ tail_clauses f,
      map (\<lambda>p. PText (snd p)) (where_pairs f) @ tail_params f)"
  by (simp add: build_query_def Let_def add_text_eq add_number_eq where_pairs_def
      tail_clauses_def tail_params_def)

lemma sqlite_run_where:
  assumes "\<forall>p \<in> set ws. where_test (fst p) \<noteq> None"
  shows "sqlite_run rank st table (map fst ws @ q) (map (\<lambda>p. PText (snd p)) ws @ ps) =
         sqlite_run rank st
           (filter (\<lambda>r. \<forall>p \<in> set ws. \<exists>t. where_test (fst p) = Some t \<and> t (snd p) r) table) q ps"
  using assms
proof (induction ws arbitrary: table)
  case Nil
  then show ?case by simp
next
  case (Cons w ws)
  then obtain t where t: "where_test (fst w) = Some t" by auto
  have "sqlite_run rank st table (map fst (w # ws) @ q) (map (\<lambda>p. PText (snd p)) (w # ws) @ ps)
      = sqlite_run rank st (filter (t (snd w)) table) (map fst ws @ q)
          (map (\<lambda>p. PText (snd p)) ws @ ps)"
    by (simp add: t)
  also have "\<dots> = sqlite_run rank st
       (filter (\<lambda>r. \<forall>p \<in> set ws. \<exists>t. where_test (fst p) = Some t \<and> t (snd p) r)
          (filter (t (snd w)) table)) q ps"
    using Cons by simp
  also have "filter (\<lambda>r. \<forall>p \<in> set ws. \<exists>t. where_test (fst p) = Some t \<and> t (snd p) r)
       (filter (t (snd w)) table)
     = filter (\<lambda>r. \<forall>p \<in> set (w # ws). \<exists>t. where_test (fst p) = Some t \<and> t (snd p) r) table"
    by (auto simp: t intro: filter_cong)
  finally show ?case .
qed

lemma where_item_ball:
  "(\<forall>p \<in> set (where_item c v). P p) = (truthy_string v \<longrightarrow> (\<exists>x. v = Some x \<and> P (c, x)))"
  by (cases v) (auto simp: where_item_def truthy_string_def)

lemma where_pairs_tests: "\<forall>p \<in> set (where_pairs f). where_test (fst p) \<noteq> None"
  by (auto simp: where_pairs_def ball_Un where_item_ball where_test_def truthy_string_def
      split: option.splits)

lemma truthy_eq_value:
  "(truthy_string v \<longrightarrow> (\<exists>x. v = Some x \<and> a = x)) = (truthy_string v \<longrightarrow> v = Some a)"
  by (cases v) (auto simp: truthy_string_def)

lemma truthy_eq_option:
  "(truthy_string v \<longrightarrow> (\<exists>x. v = Some x \<and> w = Some x)) = (truthy_string v \<longrightarrow> v = w)"
  by (cases v) (auto simp: truthy_string_def)

lemma where_pairs_matches:
  "(\<forall>p \<in> set (where_pairs f). \<exists>t. where_test (fst p) = Some t \<and> t (snd p) r) = row_matches f r"
proof -
  have "(\<forall>p \<in> set (where_pairs f). \<exists>t. where_test (fst p) = Some t \<and> t (snd p) r) =
      ((truthy_string (kind f) \<longrightarrow> (\<exists>x. kind f = Some x \<and> event_kind r = x))
      \<and> (truthy_string (session_id f) \<longrightarrow> (\<exists>x. session_id f = Some x \<and> context_session_id r = Some x))
      \<and> (truthy_string (machine_id f) \<longrightarrow> (\<exists>x. machine_id f = Some x \<and> machine_id_col r = x))
      \<and> (truthy_string (start_ts f) \<longrightarrow> (\<exists>x. start_ts f = Some x \<and> x \<le> ts_col r))
      \<and> (truthy_string (end_ts f) \<longrightarrow> (\<exists>x. end_ts f = Some x \<and> ts_col r \<le> x)))"
    by (simp add: where_pairs_def ball_Un where_item_ball where_test_def)
  also have "\<dots> = row_matches f r"
    unfolding row_matches_def truthy_eq_value truthy_eq_option by (rule refl)
  finally show ?thesis .
qed

lemma supplied_integer_limit:
  "truthy_number v \<Longrightarrow> v = Some n \<Longrightarrow> supplied_integer v = int64_of n"
  "\<not> truthy_number v \<Longrightarrow> supplied_integer v = None"
  by (auto simp: supplied_integer_def truthy_number_def split: option.splits)

lemma integer_or_absent_cases:
  "integer_or_absent v \<longleftrightarrow>
     (case v of None \<Rightarrow> True | Some n \<Rightarrow> falsy_number n \<or> int64_of n \<noteq> None)"
  by (cases v) (auto simp: integer_or_absent_def truthy_number_def)

lemma sqlite_run_tail:
  "sqlite_run rank st table (tail_clauses f) (tail_params f) =
     (if truthy_number (offset f) \<and> \<not> truthy_number (limit f) then Inl SQLITE_ERROR
      else if \<not> integer_or_absent (limit f) \<or> \<not> integer_or_absent (offset f)
        then Inl SQLITE_MISMATCH
      else Inr (paginate f (rank st table)))"
proof (cases "limit f")
  case None
  then show ?thesis
    by (cases "offset f")
       (auto simp: tail_clauses_def tail_params_def where_test_def sqlite_tail_def
          paginate_def truthy_number_def integer_or_absent_cases supplied_integer_def)
next
  case (Some n)
  then show ?thesis
    by (cases "offset f")
       (auto simp: tail_clauses_def tail_params_def where_test_def sqlite_tail_def
          paginate_def truthy_number_def integer_or_absent_cases supplied_integer_def
          split: option.splits)
qed

lemma queryEvents_eq:
  "queryEvents rank obs f =
     (if truthy_number (offset f) \<and> \<not> truthy_number (limit f) then Inl SQLITE_ERROR
      else if \<not> integer_or_absent (limit f) \<or> \<not> integer_or_absent (offset f)
        then Inl SQLITE_MISMATCH
      else Inr (map row_to_event (paginate f (ranked_matches rank obs f))))"
  using sqlite_run_where[OF where_pairs_tests, of rank "fst (build_query f)" "db obs" f
      "tail_clauses f" "tail_params f"]
  by (simp add: queryEvents_def sqlite_all_def build_query_eq where_pairs_matches
      sqlite_run_tail ranked_matches_def)

lemma ranks_latest_first: "ranks_by_ts_desc latest_first"
proof -
  have "sorted_wrt (\<lambda>a b. ts_col b \<le> ts_col a) (rev (sort_key ts_col rows))" for rows :: "Row list"
  proof -
    have "sorted (map ts_col (sort_key ts_col rows))" by simp
    then have "sorted_wrt (\<lambda>a b. ts_col a \<le> ts_col b) (sort_key ts_col rows)"
      by (simp add: sorted_map)
    then show ?thesis by (simp add: sorted_wrt_rev)
  qed
  then show ?thesis by (simp add: ranks_by_ts_desc_def latest_first_def)
qed

lemma ranked_matches_mset:
  "ranks_by_ts_desc rank \<Longrightarrow>
     mset (ranked_matches rank obs f) = mset (filter (row_matches f) (db obs))"
  by (simp add: ranks_by_ts_desc_def ranked_matches_def)

lemma ranked_matches_sorted:
  "ranks_by_ts_desc rank \<Longrightarrow>
     sorted_wrt (\<lambda>a b. ts_col b \<le> ts_col a) (ranked_matches rank obs f)"
  by (simp add: ranks_by_ts_desc_def ranked_matches_def)

lemma build_query_zero_limit:
  "build_query (f\<lparr>limit := Some (Integer 0)\<rparr>) = build_query (f\<lparr>limit := None\<rparr>)"
  by (simp add: build_query_def add_number_def falsy_number_def)

lemma build_query_zero_offset:
  "build_query (f\<lparr>offset := Some (Integer 0)\<rparr>) = build_query (f\<lparr>offset := None\<rparr>)"
  by (simp add: build_query_def add_number_def falsy_number_def)

lemma row_matches_update [simp]:
  "row_matches (f\<lparr>limit := l\<rparr>) = row_matches f"
  "row_matches (f\<lparr>offset := m\<rparr>) = row_matches f"
  by (simp_all add: row_matches_def fun_eq_iff)

lemma ranked_matches_zero_limit:
  "ranked_matches rank obs (f\<lparr>limit := Some (Integer 0)\<rparr>)
     = ranked_matches rank obs (f\<lparr>limit := None\<rparr>)"
  by (simp add: ranked_matches_def build_query_zero_limit)

text \<open>
  C10. A limit of zero and an offset of zero are treated as absent fields: the query is
  the one built without the field, an offset of zero adds no \<open>OFFSET\<close> clause, and
  with a limit of zero (and no offset) the query returns every row that satisfies
  the filters, not the empty list: the rows are those the engine ranks for the query
  without the field, which are the rows satisfying the filters, each once, in descending
  order of \<open>ts\<close>.
\<close>

theorem queryEvents_zero_is_absent:
  "queryEvents rank obs (f\<lparr>limit := Some (Integer 0)\<rparr>)
           = queryEvents rank obs (f\<lparr>limit := None\<rparr>)
   \<and> queryEvents rank obs (f\<lparr>offset := Some (Integer 0)\<rparr>)
           = queryEvents rank obs (f\<lparr>offset := None\<rparr>)
   \<and> OFFSET \<notin> set (fst (build_query (f\<lparr>offset := Some (Integer 0)\<rparr>)))
   \<and> (\<not> truthy_number (offset f) \<longrightarrow>
        queryEvents rank obs (f\<lparr>limit := Some (Integer 0)\<rparr>)
          = Inr (map row_to_event (ranked_matches rank obs (f\<lparr>limit := None\<rparr>))))
   \<and> (ranks_by_ts_desc rank \<longrightarrow>
        mset (ranked_matches rank obs (f\<lparr>limit := None\<rparr>))
          = mset (filter (row_matches f) (db obs))
        \<and> sorted_wrt (\<lambda>a b. ts_col b \<le> ts_col a)
            (ranked_matches rank obs (f\<lparr>limit := None\<rparr>)))"
proof -
  have a: "queryEvents rank obs (f\<lparr>limit := Some (Integer 0)\<rparr>)
      = queryEvents rank obs (f\<lparr>limit := None\<rparr>)"
    by (simp add: queryEvents_def build_query_zero_limit)
  have b: "queryEvents rank obs (f\<lparr>offset := Some (Integer 0)\<rparr>)
      = queryEvents rank obs (f\<lparr>offset := None\<rparr>)"
    by (simp add: queryEvents_def build_query_zero_offset)
  have c: "OFFSET \<notin> set (fst (build_query (f\<lparr>offset := Some (Integer 0)\<rparr>)))"
    by (auto simp: build_query_eq tail_clauses_def truthy_number_def falsy_number_def
        where_pairs_def where_item_def split: option.splits if_splits)
  have d: "\<not> truthy_number (offset f) \<longrightarrow>
        queryEvents rank obs (f\<lparr>limit := Some (Integer 0)\<rparr>)
          = Inr (map row_to_event (ranked_matches rank obs (f\<lparr>limit := None\<rparr>)))"
    by (simp add: queryEvents_eq paginate_def truthy_number_def falsy_number_def
        integer_or_absent_def supplied_integer_def ranked_matches_zero_limit)
  have e: "ranks_by_ts_desc rank \<longrightarrow>
        mset (ranked_matches rank obs (f\<lparr>limit := None\<rparr>))
          = mset (filter (row_matches f) (db obs))"
    using ranked_matches_mset[of rank obs "f\<lparr>limit := None\<rparr>"] by simp
  have g: "ranks_by_ts_desc rank \<longrightarrow>
        sorted_wrt (\<lambda>a b. ts_col b \<le> ts_col a)
            (ranked_matches rank obs (f\<lparr>limit := None\<rparr>))"
    using ranked_matches_sorted[of rank] by simp
  from a b c d e g show ?thesis by blast
qed

lemma row_matches_no_filters [simp]: "row_matches no_filters r"
  by (simp add: row_matches_def no_filters_def truthy_string_def)

lemma latest_first_two_fixtures:
  "latest_first st [row_fixture ''E1'' ''2024-01-01T00:00:00.000Z'' k1 s1,
                    row_fixture ''E2'' ''2024-01-01T00:00:01.000Z'' k2 s2]
   = [row_fixture ''E2'' ''2024-01-01T00:00:01.000Z'' k2 s2,
      row_fixture ''E1'' ''2024-01-01T00:00:00.000Z'' k1 s1]"
  by (simp add: latest_first_def row_fixture_def less_eq_char_def less_char_def)

text \<open>
  C10 at work: two stored events, queried with \<open>limit = 0\<close>, both come back, the later
  one first.
\<close>

theorem queryEvents_zero_is_absent_witness:
  "ranks_by_ts_desc latest_first
   \<and> \<not> truthy_number (offset no_filters)
   \<and> queryEvents latest_first
        (obs_fixture [row_fixture ''E1'' ''2024-01-01T00:00:00.000Z'' ''log'' None,
                      row_fixture ''E2'' ''2024-01-01T00:00:01.000Z'' ''log'' None])
        (no_filters\<lparr>limit := Some (Integer 0)\<rparr>)
     = Inr [row_to_event (row_fixture ''E2'' ''2024-01-01T00:00:01.000Z'' ''log'' None),
            row_to_event (row_fixture ''E1'' ''2024-01-01T00:00:00.000Z'' ''log'' None)]
   \<and> mset (ranked_matches latest_first
        (obs_fixture [row_fixture ''E1'' ''2024-01-01T00:00:00.000Z'' ''log'' None,
                      row_fixture ''E2'' ''2024-01-01T00:00:01.000Z'' ''log'' None])
        (no_filters\<lparr>limit := None\<rparr>))
     = {#row_fixture ''E1'' ''2024-01-01T00:00:00.000Z'' ''log'' None,
         row_fixture ''E2'' ''2024-01-01T00:00:01.000Z'' ''log'' None#}"
proof -
  let ?obs = "obs_fixture [row_fixture ''E1'' ''2024-01-01T00:00:00.000Z'' ''log'' None,
                          row_fixture ''E2'' ''2024-01-01T00:00:01.000Z'' ''log'' None]"
  have h: "\<not> truthy_number (offset no_filters)"
    by (simp add: no_filters_def truthy_number_def)
  have "mset (ranked_matches latest_first ?obs (no_filters\<lparr>limit := None\<rparr>))
      = mset (filter (row_matches no_filters) (db ?obs))"
    using queryEvents_zero_is_absent ranks_latest_first by blast
  then have m: "mset (ranked_matches latest_first ?obs (no_filters\<lparr>limit := None\<rparr>))
      = {#row_fixture ''E1'' ''2024-01-01T00:00:00.000Z'' ''log'' None,
          row_fixture ''E2'' ''2024-01-01T00:00:01.000Z'' ''log'' None#}"
    by (simp add: obs_fixture_def)
  have "queryEvents latest_first ?obs (no_filters\<lparr>limit := Some (Integer 0)\<rparr>)
      = Inr (map row_to_event (ranked_matches latest_first ?obs (no_filters\<lparr>limit := None\<rparr>)))"
    using queryEvents_zero_is_absent h by blast
  moreover have "ranked_matches latest_first ?obs (no_filters\<lparr>limit := None\<rparr>)
      = [row_fixture ''E2'' ''2024-01-01T00:00:01.000Z'' ''log'' None,
         row_fixture ''E1'' ''2024-01-01T00:00:00.000Z'' ''log'' None]"
    by (simp add: ranked_matches_def obs_fixture_def latest_first_two_fixtures)
  ultimately show ?thesis
    using h m ranks_latest_first by simp
qed

text \<open>
  C4. With an offset and no limit, \<open>queryEvents\<close> builds
  \<open>... ORDER BY ts DESC OFFSET ?\<close>, which SQLite refuses: the call raises on every
  table, where the claim has it return the events from rank 4 on.
\<close>

theorem queryEvents_offset_alone_fails:
  "queryEvents rank obs (no_filters\<lparr>offset := Some (Integer 3)\<rparr>) = Inl SQLITE_ERROR"
  by (simp add: queryEvents_eq no_filters_def truthy_number_def falsy_number_def)

text \<open>
  With a limit, the pieces are in the order SQLite wants and the cut follows the
  ranking: the rows from position \<open>m + 1\<close> on, at most \<open>n\<close> of them, in descending
  order of \<open>ts\<close>.
\<close>

lemma queryEvents_with_limit:
  assumes "limit f = Some (Integer n)" "0 < n" "n < 2 ^ 63"
    and "offset f = Some (Integer m)" "0 \<le> m" "m < 2 ^ 63"
  shows "queryEvents rank obs f
           = Inr (map row_to_event (take (nat n) (drop (nat m) (ranked_matches rank obs f))))"
  using assms
  by (simp add: queryEvents_eq paginate_def sql_limit_def truthy_number_def falsy_number_def
      integer_or_absent_def supplied_integer_def int64_of_def)

text \<open>
  A limit or an offset that is supplied and is not an integer of 64 bits (a fraction,
  an infinity, \<open>2^63\<close>) is bound as it is and refused by the engine.
\<close>

lemma queryEvents_mismatch:
  assumes "truthy_number (offset f) \<longrightarrow> truthy_number (limit f)"
    and "\<not> integer_or_absent (limit f) \<or> \<not> integer_or_absent (offset f)"
  shows "queryEvents rank obs f = Inl SQLITE_MISMATCH"
  using assms by (auto simp: queryEvents_eq)

lemma queryEvents_fraction_limit:
  "queryEvents rank obs (no_filters\<lparr>limit := Some (Fraction 3 2)\<rparr>) = Inl SQLITE_MISMATCH"
  by (simp add: queryEvents_eq no_filters_def truthy_number_def falsy_number_def
      integer_or_absent_def int64_of_def)

lemma queryEvents_large_limit:
  "queryEvents rank obs (no_filters\<lparr>limit := Some (Integer (2 ^ 63))\<rparr>) = Inl SQLITE_MISMATCH"
  by (simp add: queryEvents_eq no_filters_def truthy_number_def falsy_number_def
      integer_or_absent_def int64_of_def)




section \<open>The write path and the round trip\<close>

lemma split_comma_plain: "CHR '','' \<notin> set t \<Longrightarrow> split_comma t = [t]"
  by (induction t) auto

lemma split_comma_append: "CHR '','' \<notin> set t \<Longrightarrow> split_comma (t @ CHR '','' # rest) = t # split_comma rest"
  by (induction t) auto

lemma split_join_comma:
  "xs \<noteq> [] \<Longrightarrow> \<forall>t \<in> set xs. CHR '','' \<notin> set t \<Longrightarrow> split_comma (join_comma xs) = xs"
  by (induction xs rule: join_comma.induct) (auto simp: split_comma_plain split_comma_append)

lemma join_comma_empty: "join_comma xs = [] \<longleftrightarrow> xs = [] \<or> xs = [[]]"
  by (induction xs rule: join_comma.induct) auto

lemma stringify_finite_number: "finite_number n \<Longrightarrow> stringify_number n = JsonNum n"
  by (cases n) (simp_all add: finite_number_def stringify_number_def)

lemma JSON_round_trip:
  "json_safe v \<Longrightarrow> (\<exists>j. JSON_stringify v = Some j \<and> JSON_parse j = v)"
  "json_safe_elements xs \<Longrightarrow> parse_elements (stringify_elements xs) = xs"
  "json_safe_properties ps \<Longrightarrow> parse_properties (stringify_properties ps) = ps"
  by (induction v and xs and ps rule: JSON_stringify_stringify_elements_stringify_properties.induct)
     (auto simp: stringify_finite_number)

lemma no_filters_pagination: "limit no_filters = None" "offset no_filters = None"
  by (simp_all add: no_filters_def)

lemma read_column_bind_text: "read_column (bind_text v) = as_null v"
  by (cases v) (simp_all add: read_column_def bind_text_def as_null_def)

lemma tags_column_round_trip:
  assumes "flat_tags tg"
  shows "(case (case read_option tg of
                  Value tgs \<Rightarrow> if join_comma tgs = [] then None else Some (join_comma tgs)
                | _ \<Rightarrow> None) of
            None \<Rightarrow> Undefined
          | Some x \<Rightarrow> if x = [] then Undefined else Value (split_comma x))
         = read_option tg"
  using assms
  by (cases tg) (auto simp: flat_tags_def read_option_def join_comma_empty split_join_comma)

lemma row_to_event_insert_row:
  assumes "tags (event e) = read_option tg" "flat_tags tg" "JSON_parse text = data e"
  shows "row_to_event (insert_row e text) = unset_as_null e"
proof -
  obtain sv t i m c ev s d p where e:
    "e = \<lparr> schema_version = sv, ts = t, event_id = i, machine = m, context_field = c,
           event = ev, source = s, data = d, parent = p \<rparr>"
    by (cases e) auto
  obtain k tgs where ev: "ev = \<lparr> kind_event = k, tags = tgs \<rparr>"
    by (cases ev) auto
  have tgs: "tgs = read_option tg" using assms(1) by (simp add: e ev)
  show ?thesis
    using assms(3)
    by (simp add: e ev tgs row_to_event_def insert_row_def unset_as_null_def
        read_column_bind_text tags_column_round_trip[OF assms(2)])
qed

lemma writeEvent_success:
  assumes "writeEvent obs env k d options = (Inr eid, obs')"
  shows "obs' = obs\<lparr>db := db obs
            @ [insert_row (createBaseEvent obs env k d options
                            (or_else (component_opt options) ''constellation''))
                 (JsonObj (stringify_properties d))]\<rparr>
         \<and> eid = generateULID (date_now env) (random8 env)
         \<and> \<not> storage_fault env
         \<and> (\<forall>r \<in> set (db obs). event_id_col r \<noteq> eid)"
  using assms
  by (auto simp: writeEvent_def writeEventToDb_def sqlite_insert_def createBaseEvent_def
      insert_row_def Let_def split: if_splits)

text \<open>
  C7. A failing insert surfaces from \<open>writeEvent\<close> as it is, and the instance comes
  back unchanged: a storage fault as \<open>SQLITE_IOERR\<close>, a second row with the same
  \<open>event_id\<close> as \<open>SQLITE_CONSTRAINT_PRIMARYKEY\<close>, and whatever else
  \<open>writeEventToDb\<close> raises as that same failure. Nothing is retried and no row is
  written.
\<close>

theorem writeEvent_failure_surfaces:
  "(storage_fault env \<longrightarrow> writeEvent obs env k d options = (Inl SQLITE_IOERR, obs))
   \<and> (\<not> storage_fault env
        \<and> (\<exists>r \<in> set (db obs). event_id_col r = generateULID (date_now env) (random8 env))
      \<longrightarrow> writeEvent obs env k d options = (Inl SQLITE_CONSTRAINT_PRIMARYKEY, obs))
   \<and> (\<forall>failure. writeEventToDb obs env
          (createBaseEvent obs env k d options (or_else (component_opt options) ''constellation''))
          = Inl failure
      \<longrightarrow> writeEvent obs env k d options = (Inl failure, obs))"
  by (auto simp: writeEvent_def writeEventToDb_def sqlite_insert_def createBaseEvent_def
      insert_row_def Let_def)

lemma queryEvents_no_filters:
  "queryEvents rank obs no_filters
     = Inr (map row_to_event (rank [ORDER_BY_ts_DESC] (db obs)))"
  by (simp add: queryEvents_eq paginate_def supplied_integer_def truthy_number_def
      integer_or_absent_def no_filters_pagination ranked_matches_def)
     (simp add: build_query_def add_text_def add_number_def no_filters_def)

lemma filter_single_of_mset:
  assumes "mset xs = mset (ys @ [y])" "P y" "\<forall>x \<in> set ys. \<not> P x"
  shows "filter P xs = [y]"
proof -
  have "mset (filter P xs) = filter_mset P (mset (ys @ [y]))"
    using assms(1) by (metis mset_filter)
  also have "\<dots> = {#y#}"
    using assms(2,3) by (simp add: filter_mset_eq_mempty_iff)
  finally have "mset (filter P xs) = {#y#}" .
  then show ?thesis by (simp only: mset_single_iff)
qed

text \<open>
  C2, amended. An event written through \<open>writeEvent\<close> whose tags are absent or a
  non-empty list of comma-free tags other than the single empty tag, and whose data is
  a value that JSON represents as it is, is read back by \<open>queryEvents\<close>, once, as
  the envelope that was built at write time with every optional text field that has no
  value there (the absent \<open>hostname\<close> and \<open>version\<close>, and each session, actor, phase
  and parent link that is \<open>undefined\<close>) read as \<open>null\<close>. The tags, the data and the
  parent links that were set are preserved exactly.
\<close>

theorem writeEvent_round_trip:
  assumes "ranks_by_ts_desc rank"
    and "writeEvent obs env k d options = (Inr eid, obs')"
    and "flat_tags (tags_opt options)"
    and "json_safe_properties d"
  shows "\<exists>evs. queryEvents rank obs' no_filters = Inr evs
           \<and> filter (\<lambda>e. event_id e = eid) evs
               = [unset_as_null (createBaseEvent obs env k d options
                    (or_else (component_opt options) ''constellation''))]
           \<and> event_id (createBaseEvent obs env k d options
                (or_else (component_opt options) ''constellation'')) = eid"
proof -
  let ?e = "createBaseEvent obs env k d options (or_else (component_opt options) ''constellation'')"
  let ?row = "insert_row ?e (JsonObj (stringify_properties d))"
  let ?rows = "rank [ORDER_BY_ts_DESC] (db obs')"
  have obs': "db obs' = db obs @ [?row]"
    using writeEvent_success[OF assms(2)] by simp
  have eid: "eid = generateULID (date_now env) (random8 env)"
    using writeEvent_success[OF assms(2)] by blast
  have fresh: "\<forall>r \<in> set (db obs). \<not> event_id_col r = eid"
    using writeEvent_success[OF assms(2)] by blast
  have j: "JSON_parse (JsonObj (stringify_properties d)) = data ?e"
    using assms(4) by (simp add: createBaseEvent_def JSON_round_trip)
  have t: "tags (event ?e) = read_option (tags_opt options)"
    by (simp add: createBaseEvent_def)
  have rt: "row_to_event ?row = unset_as_null ?e"
    using t assms(3) j by (rule row_to_event_insert_row)
  have id: "event_id ?e = eid" by (simp add: createBaseEvent_def eid)
  have q: "queryEvents rank obs' no_filters = Inr (map row_to_event ?rows)"
    by (rule queryEvents_no_filters)
  have "mset ?rows = mset (db obs @ [?row])"
    using assms(1) obs' by (simp add: ranks_by_ts_desc_def)
  moreover have "event_id_col ?row = eid"
    by (simp add: insert_row_def id)
  ultimately have "filter (\<lambda>r. event_id_col r = eid) ?rows = [?row]"
    using fresh by (intro filter_single_of_mset) auto
  moreover have "filter (\<lambda>e. event_id e = eid) (map row_to_event ?rows)
      = map row_to_event (filter (\<lambda>r. event_id_col r = eid) ?rows)"
    by (simp add: filter_map comp_def row_to_event_def)
  ultimately have "filter (\<lambda>e. event_id e = eid) (map row_to_event ?rows) = [unset_as_null ?e]"
    by (simp add: rt)
  with q id show ?thesis by blast
qed

lemma writeEvent_fresh:
  assumes "\<not> storage_fault env"
    and "\<forall>r \<in> set (db obs). event_id_col r \<noteq> generateULID (date_now env) (random8 env)"
  shows "writeEvent obs env k d options =
     (Inr (generateULID (date_now env) (random8 env)),
      obs\<lparr>db := db obs
        @ [insert_row (createBaseEvent obs env k d options
                        (or_else (component_opt options) ''constellation''))
             (JsonObj (stringify_properties d))]\<rparr>)"
  using assms
  by (auto simp: writeEvent_def writeEventToDb_def sqlite_insert_def createBaseEvent_def
      insert_row_def Let_def)

lemma writeEvent_first:
  "writeEvent (obs_fixture []) (env_fixture stamp now False) k d options =
     (Inr (generateULID now [0, 1, 2, 3, 4, 5, 6, 7]),
      obs_fixture [insert_row (createBaseEvent (obs_fixture []) (env_fixture stamp now False)
                                 k d options (or_else (component_opt options) ''constellation''))
                     (JsonObj (stringify_properties d))])"
proof -
  have a: "\<not> storage_fault (env_fixture stamp now False)"
    by (simp add: env_fixture_def)
  have b: "\<forall>r \<in> set (db (obs_fixture [])). event_id_col r
      \<noteq> generateULID (date_now (env_fixture stamp now False)) (random8 (env_fixture stamp now False))"
    by (simp add: obs_fixture_def)
  have c: "date_now (env_fixture stamp now False) = now"
    "random8 (env_fixture stamp now False) = [0, 1, 2, 3, 4, 5, 6, 7]"
    by (simp_all add: env_fixture_def)
  have d: "(obs_fixture [])\<lparr>db := db (obs_fixture []) @ rows\<rparr> = obs_fixture rows" for rows
    by (simp add: obs_fixture_def)
  show ?thesis
    using writeEvent_fresh[OF a b, of k d options] by (simp add: c d)
qed

text \<open>
  C7 at work: a write under a storage fault, and a second write that draws the
  identifier of the first.
\<close>

theorem writeEvent_failure_surfaces_witness:
  "storage_fault (env_fixture ''2024-01-01T00:00:00.000Z'' 1700000000000 True)
   \<and> writeEvent (obs_fixture []) (env_fixture ''2024-01-01T00:00:00.000Z'' 1700000000000 True)
        ''log'' [] (options_fixture None)
     = (Inl SQLITE_IOERR, obs_fixture [])
   \<and> fst (writeEvent (obs_fixture [])
        (env_fixture ''2024-01-01T00:00:00.000Z'' 1700000000000 False)
        ''log'' [] (options_fixture None)) = Inr (generateULID 1700000000000 [0, 1, 2, 3, 4, 5, 6, 7])
   \<and> writeEvent
        (snd (writeEvent (obs_fixture [])
               (env_fixture ''2024-01-01T00:00:00.000Z'' 1700000000000 False)
               ''log'' [] (options_fixture None)))
        (env_fixture ''2024-01-01T00:00:00.000Z'' 1700000000000 False)
        ''log'' [] (options_fixture None)
     = (Inl SQLITE_CONSTRAINT_PRIMARYKEY,
        snd (writeEvent (obs_fixture [])
               (env_fixture ''2024-01-01T00:00:00.000Z'' 1700000000000 False)
               ''log'' [] (options_fixture None)))"
proof -
  let ?fault = "env_fixture ''2024-01-01T00:00:00.000Z'' 1700000000000 True"
  let ?env = "env_fixture ''2024-01-01T00:00:00.000Z'' 1700000000000 False"
  let ?obs1 = "snd (writeEvent (obs_fixture []) ?env ''log'' [] (options_fixture None))"
  have f: "storage_fault ?fault" by (simp add: env_fixture_def)
  have n: "\<not> storage_fault ?env
      \<and> (\<exists>r \<in> set (db ?obs1). event_id_col r = generateULID (date_now ?env) (random8 ?env))"
    by (simp add: writeEvent_first)
       (simp add: env_fixture_def obs_fixture_def insert_row_def createBaseEvent_def)
  have a: "writeEvent (obs_fixture []) ?fault ''log'' [] (options_fixture None)
      = (Inl SQLITE_IOERR, obs_fixture [])"
    using writeEvent_failure_surfaces f by blast
  have b: "writeEvent ?obs1 ?env ''log'' [] (options_fixture None)
      = (Inl SQLITE_CONSTRAINT_PRIMARYKEY, ?obs1)"
    using writeEvent_failure_surfaces n by blast
  show ?thesis using f a b by (simp add: writeEvent_first)
qed

text \<open>
  C2, amended, at work: an event with the tags \<open>a\<close> and \<open>b\<close>, the session \<open>S1\<close>
  and the data \<open>{n: 1}\<close>, written into an empty table. What is read back has the
  tags, the data and the session as they were built, and \<open>null\<close> for the host name,
  which the built envelope does not have.
\<close>

theorem writeEvent_round_trip_witness:
  "ranks_by_ts_desc latest_first
   \<and> flat_tags (tags_opt (options_fixture (Some [''a'', ''b''])))
   \<and> json_safe_properties [(''n'', JNum (Integer 1))]
   \<and> queryEvents latest_first
        (snd (writeEvent (obs_fixture [])
               (env_fixture ''2024-01-01T00:00:00.000Z'' 1700000000000 False)
               ''log'' [(''n'', JNum (Integer 1))] (options_fixture (Some [''a'', ''b'']))))
        no_filters
     = Inr [unset_as_null (createBaseEvent (obs_fixture [])
              (env_fixture ''2024-01-01T00:00:00.000Z'' 1700000000000 False)
              ''log'' [(''n'', JNum (Integer 1))] (options_fixture (Some [''a'', ''b'']))
              ''constellation'')]
   \<and> tags (event (unset_as_null (createBaseEvent (obs_fixture [])
              (env_fixture ''2024-01-01T00:00:00.000Z'' 1700000000000 False)
              ''log'' [(''n'', JNum (Integer 1))] (options_fixture (Some [''a'', ''b'']))
              ''constellation''))) = Value [''a'', ''b'']
   \<and> data (unset_as_null (createBaseEvent (obs_fixture [])
              (env_fixture ''2024-01-01T00:00:00.000Z'' 1700000000000 False)
              ''log'' [(''n'', JNum (Integer 1))] (options_fixture (Some [''a'', ''b'']))
              ''constellation'')) = JObj [(''n'', JNum (Integer 1))]
   \<and> session_id_context (context_field (unset_as_null (createBaseEvent (obs_fixture [])
              (env_fixture ''2024-01-01T00:00:00.000Z'' 1700000000000 False)
              ''log'' [(''n'', JNum (Integer 1))] (options_fixture (Some [''a'', ''b'']))
              ''constellation''))) = Value ''S1''
   \<and> hostname (machine (unset_as_null (createBaseEvent (obs_fixture [])
              (env_fixture ''2024-01-01T00:00:00.000Z'' 1700000000000 False)
              ''log'' [(''n'', JNum (Integer 1))] (options_fixture (Some [''a'', ''b'']))
              ''constellation''))) = Null"
proof -
  let ?env = "env_fixture ''2024-01-01T00:00:00.000Z'' 1700000000000 False"
  let ?opts = "options_fixture (Some [''a'', ''b''])"
  let ?d = "[(''n'', JNum (Integer 1))]"
  let ?w = "writeEvent (obs_fixture []) ?env ''log'' ?d ?opts"
  let ?e = "createBaseEvent (obs_fixture []) ?env ''log'' ?d ?opts ''constellation''"
  have c: "or_else (component_opt ?opts) ''constellation'' = ''constellation''"
    by (simp add: options_fixture_def or_else_def)
  have w: "?w = (Inr (generateULID 1700000000000 [0, 1, 2, 3, 4, 5, 6, 7]), snd ?w)"
    by (simp add: writeEvent_first)
  have t: "flat_tags (tags_opt ?opts)"
    by (simp add: options_fixture_def flat_tags_def)
  have d: "json_safe_properties ?d" by (simp add: finite_number_def)
  from writeEvent_round_trip[OF ranks_latest_first w t d]
  obtain evs where evs: "queryEvents latest_first (snd ?w) no_filters = Inr evs"
    and one: "filter (\<lambda>e. event_id e = generateULID 1700000000000 [0, 1, 2, 3, 4, 5, 6, 7]) evs
               = [unset_as_null ?e]"
    unfolding c by blast
  have "db (snd ?w) = [insert_row (createBaseEvent (obs_fixture []) ?env ''log'' ?d ?opts
        (or_else (component_opt ?opts) ''constellation'')) (JsonObj (stringify_properties ?d))]"
    by (simp add: writeEvent_first) (simp add: obs_fixture_def)
  then have "length evs = 1"
    using evs by (auto simp: queryEvents_no_filters latest_first_def)
  then obtain x where x: "evs = [x]"
    by (cases evs) auto
  have "x = unset_as_null ?e"
    using one unfolding x by (simp split: if_splits)
  then have q: "queryEvents latest_first (snd ?w) no_filters = Inr [unset_as_null ?e]"
    using evs x by simp
  have r: "tags (event (unset_as_null ?e)) = Value [''a'', ''b'']"
    "data (unset_as_null ?e) = JObj ?d"
    "session_id_context (context_field (unset_as_null ?e)) = Value ''S1''"
    "hostname (machine (unset_as_null ?e)) = Null"
    by (simp_all add: unset_as_null_def createBaseEvent_def options_fixture_def read_option_def
        as_null_def)
  show ?thesis
    using ranks_latest_first t d q r by blast
qed

text \<open>
  C2, as stated, fails: an event written with the empty tags list \<open>[]\<close> is stored
  with \<open>event_tags = NULL\<close> and read back with \<open>undefined\<close> tags; and the host
  name, a key that the built envelope does not have, is read back as \<open>null\<close>.
\<close>

theorem writeEvent_empty_tags_counterexample:
  "fst (writeEvent (obs_fixture [])
         (env_fixture ''2024-01-01T00:00:00.000Z'' 1700000000000 False)
         ''log'' [] (options_fixture (Some [])))
     = Inr (generateULID 1700000000000 [0, 1, 2, 3, 4, 5, 6, 7])
   \<and> tags (event (createBaseEvent (obs_fixture [])
         (env_fixture ''2024-01-01T00:00:00.000Z'' 1700000000000 False)
         ''log'' [] (options_fixture (Some [])) ''constellation'')) = Value []
   \<and> hostname (machine (createBaseEvent (obs_fixture [])
         (env_fixture ''2024-01-01T00:00:00.000Z'' 1700000000000 False)
         ''log'' [] (options_fixture (Some [])) ''constellation'')) = Absent
   \<and> queryEvents latest_first
        (snd (writeEvent (obs_fixture [])
               (env_fixture ''2024-01-01T00:00:00.000Z'' 1700000000000 False)
               ''log'' [] (options_fixture (Some []))))
        no_filters
     = Inr [(unset_as_null (createBaseEvent (obs_fixture [])
              (env_fixture ''2024-01-01T00:00:00.000Z'' 1700000000000 False)
              ''log'' [] (options_fixture (Some [])) ''constellation''))
            \<lparr>event := \<lparr>kind_event = ''log'', tags = Undefined\<rparr>\<rparr>]
   \<and> hostname (machine (unset_as_null (createBaseEvent (obs_fixture [])
         (env_fixture ''2024-01-01T00:00:00.000Z'' 1700000000000 False)
         ''log'' [] (options_fixture (Some [])) ''constellation''))) = Null"
  by (simp add: writeEvent_first queryEvents_no_filters)
     (simp add: obs_fixture_def latest_first_def row_to_event_def insert_row_def
        createBaseEvent_def options_fixture_def or_else_def unset_as_null_def as_null_def
        read_option_def read_column_def bind_text_def parent_link_def)

section \<open>The typed writers\<close>

lemma has_field_Nil [simp]: "\<not> has_field [] k"
  by (simp add: has_field_def)









lemma insert_row_id_data [simp]:
  "event_id_col (insert_row e text) = event_id e"
  "data_col (insert_row e text) = text"
  by (simp_all add: insert_row_def)

lemma createBaseEvent_id [simp]:
  "event_id (createBaseEvent obs env k d options c) = generateULID (date_now env) (random8 env)"
  by (simp add: createBaseEvent_def)



























lemma map_of_set_property:
  "map_of (set_property ps k v) k' = (if k' = k then Some v else map_of ps k')"
  by (induction ps) auto

lemma map_of_set_if_truthy: "k' \<noteq> k \<Longrightarrow> map_of (set_if_truthy k x ps) k' = map_of ps k'"
  by (cases x) (simp_all add: set_if_truthy_def map_of_set_property)

lemma map_of_set_if_present: "k' \<noteq> k \<Longrightarrow> map_of (set_if_present k x ps) k' = map_of ps k'"
  by (cases x) (simp_all add: set_if_present_def map_of_set_property)

lemma map_of_stringify:
  "map_of ps k = Some v \<Longrightarrow> JSON_stringify v = Some j
     \<Longrightarrow> map_of (stringify_properties ps) k = Some j"
proof (induction ps)
  case Nil
  then show ?case by simp
next
  case (Cons p ps)
  then show ?case
    by (cases "JSON_stringify (snd p)") (auto split: if_splits)
qed

text \<open>
  C9. The event that \<open>writeError\<close> hands to \<open>writeEvent\<close> has the booleans
  \<open>retryable\<close> and \<open>transient\<close> in its data, \<open>false\<close> when the caller omits them,
  and the tags \<open>["error", errorType]\<close>. The row it stores has the same two booleans
  in its \<open>data\<close>, the kind \<open>error\<close> and the tags joined as
  \<open>error,<errorType>\<close>.
\<close>

theorem writeError_defaults:
  "(\<exists>d. writeError obs env errorType message options
          = writeEvent obs env ''error'' d
              (options_object (sessionId options) ''error-handler'' None
                 (Some [''error'', errorType]) options)
        \<and> map_of d ''retryable''
            = Some (JBool (case retryable options of None \<Rightarrow> False | Some b \<Rightarrow> b))
        \<and> map_of d ''transient''
            = Some (JBool (case transient options of None \<Rightarrow> False | Some b \<Rightarrow> b))
        \<and> tags (event (createBaseEvent obs env ''error'' d
              (options_object (sessionId options) ''error-handler'' None
                 (Some [''error'', errorType]) options) ''error-handler''))
            = Value [''error'', errorType])
   \<and> (\<forall>eid obs'. writeError obs env errorType message options = (Inr eid, obs') \<longrightarrow>
        (\<exists>row. db obs' = db obs @ [row] \<and> event_id_col row = eid
           \<and> json_field (data_col row) ''retryable''
               = Some (JsonBool (case retryable options of None \<Rightarrow> False | Some b \<Rightarrow> b))
           \<and> json_field (data_col row) ''transient''
               = Some (JsonBool (case transient options of None \<Rightarrow> False | Some b \<Rightarrow> b))
           \<and> event_kind row = ''error''
           \<and> event_tags row = Some (''error,'' @ errorType)))"
proof -
  define d where "d =
     set_if_present ''recovery_actions'' (map_option string_array (recoveryActions options))
      (set_if_truthy ''raw_output'' (rawOutput options)
        (set_if_present ''invariants_violated''
           (map_option string_array (invariantsViolated options))
          (set_if_truthy ''tool_name'' (toolName_error options)
            (set_if_truthy ''error_code'' (errorCode options)
              [(''error_type'', JStr errorType),
               (''message'', JStr message),
               (''context_session_id'', opt_string (sessionId options)),
               (''retryable'', JBool (or_false (retryable options))),
               (''transient'', JBool (or_false (transient options)))]))))"
  let ?opts = "options_object (sessionId options) ''error-handler'' None
                 (Some [''error'', errorType]) options"
  have w: "writeError obs env errorType message options = writeEvent obs env ''error'' d ?opts"
    by (simp add: writeError_def Let_def d_def)
  have r: "map_of d ''retryable''
      = Some (JBool (case retryable options of None \<Rightarrow> False | Some b \<Rightarrow> b))"
    by (simp add: d_def map_of_set_if_truthy map_of_set_if_present or_false_def)
  have t: "map_of d ''transient''
      = Some (JBool (case transient options of None \<Rightarrow> False | Some b \<Rightarrow> b))"
    by (simp add: d_def map_of_set_if_truthy map_of_set_if_present or_false_def)
  have g: "tags (event (createBaseEvent obs env ''error'' d ?opts ''error-handler''))
      = Value [''error'', errorType]"
    by (simp add: createBaseEvent_def options_object_def read_option_def)
  have s: "\<exists>row. db obs' = db obs @ [row] \<and> event_id_col row = eid
           \<and> json_field (data_col row) ''retryable''
               = Some (JsonBool (case retryable options of None \<Rightarrow> False | Some b \<Rightarrow> b))
           \<and> json_field (data_col row) ''transient''
               = Some (JsonBool (case transient options of None \<Rightarrow> False | Some b \<Rightarrow> b))
           \<and> event_kind row = ''error''
           \<and> event_tags row = Some (''error,'' @ errorType)"
    if "writeError obs env errorType message options = (Inr eid, obs')" for eid obs'
  proof -
    from that w have "writeEvent obs env ''error'' d ?opts = (Inr eid, obs')" by simp
    from writeEvent_success[OF this]
    have "db obs' = db obs @ [insert_row (createBaseEvent obs env ''error'' d ?opts
             (or_else (component_opt ?opts) ''constellation''))
           (JsonObj (stringify_properties d))]"
      and "eid = generateULID (date_now env) (random8 env)"
      by simp_all
    moreover have "json_field (JsonObj (stringify_properties d)) ''retryable''
        = Some (JsonBool (case retryable options of None \<Rightarrow> False | Some b \<Rightarrow> b))"
      using map_of_stringify[OF r] by (simp add: json_field_def)
    moreover have "json_field (JsonObj (stringify_properties d)) ''transient''
        = Some (JsonBool (case transient options of None \<Rightarrow> False | Some b \<Rightarrow> b))"
      using map_of_stringify[OF t] by (simp add: json_field_def)
    moreover have "event_kind (insert_row (createBaseEvent obs env ''error'' d ?opts
             (or_else (component_opt ?opts) ''constellation'')) j) = ''error''"
      "event_tags (insert_row (createBaseEvent obs env ''error'' d ?opts
             (or_else (component_opt ?opts) ''constellation'')) j)
        = Some (''error,'' @ errorType)" for j
      by (simp_all add: insert_row_def createBaseEvent_def options_object_def read_option_def)
    ultimately show ?thesis by simp
  qed
  from w r t g s show ?thesis by blast
qed

lemma writeError_first:
  "writeError (obs_fixture [])
      (env_fixture ''2024-01-01T00:00:00.000Z'' 1700000000000 False)
      ''timeout'' ''tool timed out'' (error_options (Some ''S1''))
   = (Inr (generateULID 1700000000000 [0, 1, 2, 3, 4, 5, 6, 7]),
      snd (writeError (obs_fixture [])
        (env_fixture ''2024-01-01T00:00:00.000Z'' 1700000000000 False)
        ''timeout'' ''tool timed out'' (error_options (Some ''S1''))))"
  by (simp add: writeError_def Let_def writeEvent_first)

text \<open>
  C9 at work: an error written without \<open>retryable\<close> and \<open>transient\<close>.
\<close>

theorem writeError_defaults_witness:
  "json_field (data_col (last (db (snd (writeError (obs_fixture [])
        (env_fixture ''2024-01-01T00:00:00.000Z'' 1700000000000 False)
        ''timeout'' ''tool timed out'' (error_options (Some ''S1'')))))))
      ''retryable'' = Some (JsonBool False)
   \<and> json_field (data_col (last (db (snd (writeError (obs_fixture [])
        (env_fixture ''2024-01-01T00:00:00.000Z'' 1700000000000 False)
        ''timeout'' ''tool timed out'' (error_options (Some ''S1'')))))))
      ''transient'' = Some (JsonBool False)
   \<and> event_tags (last (db (snd (writeError (obs_fixture [])
        (env_fixture ''2024-01-01T00:00:00.000Z'' 1700000000000 False)
        ''timeout'' ''tool timed out'' (error_options (Some ''S1''))))))
      = Some ''error,timeout''"
proof -
  let ?w = "writeError (obs_fixture [])
        (env_fixture ''2024-01-01T00:00:00.000Z'' 1700000000000 False)
        ''timeout'' ''tool timed out'' (error_options (Some ''S1''))"
  from writeError_defaults[THEN conjunct2, rule_format, OF writeError_first]
  obtain row where "db (snd ?w) = db (obs_fixture []) @ [row]"
    and "json_field (data_col row) ''retryable''
      = Some (JsonBool (case retryable (error_options (Some ''S1'')) of
                          None \<Rightarrow> False | Some b \<Rightarrow> b))"
    and "json_field (data_col row) ''transient''
      = Some (JsonBool (case transient (error_options (Some ''S1'')) of
                          None \<Rightarrow> False | Some b \<Rightarrow> b))"
    and "event_tags row = Some (''error,'' @ ''timeout'')"
    by blast
  then show ?thesis by (simp add: error_options_def)
qed


section \<open>Machine identity and the singleton\<close>

lemma initializeMachineId_override:
  "MACHINE_ID w = Some m \<Longrightarrow> m \<noteq> [] \<Longrightarrow> initializeMachineId w file rnd = (Inr m, w)"
  by (simp add: initializeMachineId_def)

lemma initializeMachineId_no_override:
  "\<not> truthy_string (MACHINE_ID w) \<Longrightarrow>
   initializeMachineId w file rnd =
     (case files w file of
        Some content \<Rightarrow> (Inr (trim content), w)
      | None \<Rightarrow>
          (case writeFileSync w file (''constellation-'' @ substring (toString_hex rnd) 0 6) of
             Inl failure \<Rightarrow> (Inl failure, w)
           | Inr w' \<Rightarrow> (Inr (''constellation-'' @ substring (toString_hex rnd) 0 6), w')))"
  by (cases "MACHINE_ID w")
     (auto simp: initializeMachineId_def truthy_string_def Let_def
        split: option.splits sum.splits)

text \<open>
  C6. The machine identity is resolved in this order. An override \<open>MACHINE_ID\<close> that
  is present (set to a non-empty value, as \<open>if (process.env.MACHINE_ID)\<close> tests it) is
  returned as it is and the world stays as it was. Otherwise the content of the identity
  file, if the file exists, is returned trimmed and the world stays as it was. Otherwise
  the new identifier \<open>constellation-\<close> followed by the six hexadecimal digits of three
  random bytes is written to the identity file and returned (or the write is refused and
  the failure returned). The world changes in this last branch only.
\<close>

theorem initializeMachineId_precedence:
  "(truthy_string (MACHINE_ID w) \<longrightarrow>
      (\<exists>m. MACHINE_ID w = Some m \<and> initializeMachineId w file rnd = (Inr m, w)))
   \<and> (\<not> truthy_string (MACHINE_ID w) \<longrightarrow>
      (\<forall>content. files w file = Some content \<longrightarrow>
         initializeMachineId w file rnd = (Inr (trim content), w)))
   \<and> (\<not> truthy_string (MACHINE_ID w) \<and> files w file = None \<and> can_write w file
        \<and> length rnd = 3 \<longrightarrow>
      initializeMachineId w file rnd
        = (Inr (''constellation-'' @ toString_hex rnd),
           w\<lparr>files := (files w)(file \<mapsto> ''constellation-'' @ toString_hex rnd)\<rparr>)
      \<and> length (toString_hex rnd) = 6)
   \<and> (\<not> truthy_string (MACHINE_ID w) \<and> files w file = None \<and> \<not> can_write w file \<longrightarrow>
      initializeMachineId w file rnd = (Inl EACCES, w))
   \<and> (snd (initializeMachineId w file rnd) \<noteq> w \<longrightarrow>
      \<not> truthy_string (MACHINE_ID w) \<and> files w file = None)"
proof -
  have a: "truthy_string (MACHINE_ID w) \<longrightarrow>
      (\<exists>m. MACHINE_ID w = Some m \<and> initializeMachineId w file rnd = (Inr m, w))"
    by (cases "MACHINE_ID w") (auto simp: truthy_string_def initializeMachineId_override)
  have b: "\<not> truthy_string (MACHINE_ID w) \<longrightarrow>
      (\<forall>content. files w file = Some content \<longrightarrow>
         initializeMachineId w file rnd = (Inr (trim content), w))"
    by (simp add: initializeMachineId_no_override)
  have c: "\<not> truthy_string (MACHINE_ID w) \<and> files w file = None \<and> can_write w file
        \<and> length rnd = 3 \<longrightarrow>
      initializeMachineId w file rnd
        = (Inr (''constellation-'' @ toString_hex rnd),
           w\<lparr>files := (files w)(file \<mapsto> ''constellation-'' @ toString_hex rnd)\<rparr>)
      \<and> length (toString_hex rnd) = 6"
    by (simp add: initializeMachineId_no_override writeFileSync_def substring_def)
  have d: "\<not> truthy_string (MACHINE_ID w) \<and> files w file = None \<and> \<not> can_write w file \<longrightarrow>
      initializeMachineId w file rnd = (Inl EACCES, w)"
    by (simp add: initializeMachineId_no_override writeFileSync_def)
  have e: "snd (initializeMachineId w file rnd) \<noteq> w \<longrightarrow>
      \<not> truthy_string (MACHINE_ID w) \<and> files w file = None"
    using a b by (cases "files w file") auto
  from a b c d e show ?thesis by blast
qed

lemma is_space_newline: "is_space (char_of (10::nat))"
  by (simp add: is_space_def)

lemma trim_fixture: "trim (''constellation-0a1b2c'' @ [char_of (10::nat)]) = ''constellation-0a1b2c''"
  by (simp add: trim_def is_space_def)

text \<open>
  C6 at work: an override \<open>ci-runner\<close>; a stored file ending in a line feed; and
  neither, with the random bytes \<open>ab cd ef\<close>.
\<close>

theorem initializeMachineId_precedence_witness:
  "initializeMachineId (world_fixture (Some ''ci-runner'') Map.empty)
      ''/app/data/.machine_id'' [171, 205, 239]
     = (Inr ''ci-runner'', world_fixture (Some ''ci-runner'') Map.empty)
   \<and> initializeMachineId
        (world_fixture None [''/app/data/.machine_id'' \<mapsto>
            ''constellation-0a1b2c'' @ [char_of (10::nat)]])
        ''/app/data/.machine_id'' [171, 205, 239]
     = (Inr ''constellation-0a1b2c'',
        world_fixture None [''/app/data/.machine_id'' \<mapsto>
            ''constellation-0a1b2c'' @ [char_of (10::nat)]])
   \<and> initializeMachineId (world_fixture None Map.empty)
        ''/app/data/.machine_id'' [171, 205, 239]
     = (Inr (''constellation-'' @ toString_hex [171, 205, 239]),
        world_fixture None [''/app/data/.machine_id'' \<mapsto>
            ''constellation-'' @ toString_hex [171, 205, 239]])"
proof -
  let ?f = "''/app/data/.machine_id''"
  let ?w1 = "world_fixture (Some ''ci-runner'') Map.empty"
  let ?w2 = "world_fixture None [?f \<mapsto> ''constellation-0a1b2c'' @ [char_of (10::nat)]]"
  let ?w3 = "world_fixture None Map.empty"
  have h1: "truthy_string (MACHINE_ID ?w1)"
    by (simp add: world_fixture_def truthy_string_def)
  have h2: "\<not> truthy_string (MACHINE_ID ?w2)"
    "files ?w2 ?f = Some (''constellation-0a1b2c'' @ [char_of (10::nat)])"
    by (simp_all add: world_fixture_def truthy_string_def)
  have h3: "\<not> truthy_string (MACHINE_ID ?w3) \<and> files ?w3 ?f = None \<and> can_write ?w3 ?f
      \<and> length [171, 205, 239 :: 8 word] = 3"
    by (simp add: world_fixture_def truthy_string_def)
  note p = initializeMachineId_precedence
  have a: "initializeMachineId ?w1 ?f [171, 205, 239] = (Inr ''ci-runner'', ?w1)"
    using p[of ?w1 ?f "[171, 205, 239]", THEN conjunct1] h1
    by (auto simp: world_fixture_def)
  have b: "initializeMachineId ?w2 ?f [171, 205, 239] = (Inr ''constellation-0a1b2c'', ?w2)"
  proof -
    have "initializeMachineId ?w2 ?f [171, 205, 239]
        = (Inr (trim (''constellation-0a1b2c'' @ [char_of (10::nat)])), ?w2)"
      using p[of ?w2 ?f "[171, 205, 239]", THEN conjunct2, THEN conjunct1] h2 by blast
    then show ?thesis by (simp only: trim_fixture)
  qed
  have c: "initializeMachineId ?w3 ?f [171, 205, 239]
     = (Inr (''constellation-'' @ toString_hex [171, 205, 239]),
        world_fixture None [?f \<mapsto> ''constellation-'' @ toString_hex [171, 205, 239]])"
    using p[of ?w3 ?f "[171, 205, 239]", THEN conjunct2, THEN conjunct2, THEN conjunct1] h3
    by (simp add: world_fixture_def)
  from a b c show ?thesis by blast
qed


lemma Observability_new_default:
  "Observability_new w rnd None = Observability_new w rnd (Some ''data'')"
  by (simp add: Observability_new_def)

lemma Observability_new_dataDir:
  assumes "Observability_new w rnd d = (Inr obs, w')"
  shows "dataDir obs = resolve (cwd w) [case d of None \<Rightarrow> ''data'' | Some x \<Rightarrow> x]
         \<and> machineIdFile obs = resolve (cwd w) [dataDir obs, ''.machine_id'']"
  using assms
  by (auto simp: Observability_new_def Let_def split: prod.splits sum.splits)

text \<open>
  C8. With an instance in the module variable, \<open>initializeObservability\<close> and
  \<open>getObservability\<close> return that instance and leave variable and world alone,
  whatever directory is passed. An instance that \<open>initializeObservability\<close> has
  constructed for the directory \<open>d1\<close> is bound to \<open>d1\<close> (resolved) and is what every
  later call returns, for any later world, random bytes and directory argument.
  \<open>getObservability\<close> with an empty variable runs the constructor on \<open>"data"\<close>, and
  the instance it returns is bound to that directory.
\<close>

theorem singleton_keeps_first_instance:
  "initializeObservability (Some obs) w rnd d = (Inr obs, Some obs, w)
   \<and> getObservability (Some obs) w rnd = (Inr obs, Some obs, w)
   \<and> (\<forall>obs1 inst1 w1. initializeObservability None w rnd (Some d1) = (Inr obs1, inst1, w1) \<longrightarrow>
        inst1 = Some obs1 \<and> dataDir obs1 = resolve (cwd w) [d1]
        \<and> initializeObservability inst1 w2 rnd2 d2 = (Inr obs1, inst1, w2))
   \<and> getObservability None w rnd =
        (case Observability_new w rnd (Some ''data'') of
           (Inl failure, w') \<Rightarrow> (Inl failure, None, w')
         | (Inr obs0, w') \<Rightarrow> (Inr obs0, Some obs0, w'))
   \<and> (\<forall>obs1 inst1 w1. getObservability None w rnd = (Inr obs1, inst1, w1) \<longrightarrow>
        inst1 = Some obs1 \<and> dataDir obs1 = resolve (cwd w) [''data''])"
proof -
  have a: "initializeObservability (Some obs) w rnd d = (Inr obs, Some obs, w)"
    by (simp add: initializeObservability_def)
  have b: "getObservability (Some obs) w rnd = (Inr obs, Some obs, w)"
    by (simp add: getObservability_def)
  have c: "inst1 = Some obs1 \<and> dataDir obs1 = resolve (cwd w) [d1]
        \<and> initializeObservability inst1 w2 rnd2 d2 = (Inr obs1, inst1, w2)"
    if "initializeObservability None w rnd (Some d1) = (Inr obs1, inst1, w1)" for obs1 inst1 w1
  proof -
    from that have n: "Observability_new w rnd (Some d1) = (Inr obs1, w1)" and i: "inst1 = Some obs1"
      by (auto simp: initializeObservability_def split: prod.splits sum.splits)
    from Observability_new_dataDir[OF n] have "dataDir obs1 = resolve (cwd w) [d1]" by simp
    then show ?thesis using i by (simp add: initializeObservability_def)
  qed
  have d: "getObservability None w rnd =
        (case Observability_new w rnd (Some ''data'') of
           (Inl failure, w') \<Rightarrow> (Inl failure, None, w')
         | (Inr obs0, w') \<Rightarrow> (Inr obs0, Some obs0, w'))"
    by (simp add: getObservability_def Observability_new_default)
  have e: "inst1 = Some obs1 \<and> dataDir obs1 = resolve (cwd w) [''data'']"
    if "getObservability None w rnd = (Inr obs1, inst1, w1)" for obs1 inst1 w1
  proof -
    from that have n: "Observability_new w rnd None = (Inr obs1, w1)" and i: "inst1 = Some obs1"
      by (auto simp: getObservability_def split: prod.splits sum.splits)
    from Observability_new_dataDir[OF n] show ?thesis using i by simp
  qed
  from a b c d e show ?thesis by blast
qed

lemma resolve_fixtures:
  "resolve ''/app'' [''/var/obs''] = ''/var/obs''"
  "resolve ''/app'' [''data''] = ''/app/data''"
  "resolve ''/app'' [''/var/obs'', ''.machine_id''] = ''/var/obs/.machine_id''"
  "resolve ''/app'' [''/var/obs'', ''observability.db''] = ''/var/obs/observability.db''"
  "resolve ''/app'' [''/app/data'', ''.machine_id''] = ''/app/data/.machine_id''"
  "resolve ''/app'' [''/app/data'', ''observability.db''] = ''/app/data/observability.db''"
  by (simp_all add: resolve_def)

lemma Observability_new_fixture:
  "Observability_new (world_fixture (Some ''ci-runner'') Map.empty) rnd (Some ''/var/obs'')
   = (Inr \<lparr> db = [], machineId = ''ci-runner'', dataDir = ''/var/obs'',
            machineIdFile = ''/var/obs/.machine_id'' \<rparr>,
      (world_fixture (Some ''ci-runner'') Map.empty)
        \<lparr>databases := [''/var/obs/observability.db'' \<mapsto> []]\<rparr>)"
  "Observability_new (world_fixture (Some ''ci-runner'') Map.empty) rnd None
   = (Inr \<lparr> db = [], machineId = ''ci-runner'', dataDir = ''/app/data'',
            machineIdFile = ''/app/data/.machine_id'' \<rparr>,
      (world_fixture (Some ''ci-runner'') Map.empty)
        \<lparr>databases := [''/app/data/observability.db'' \<mapsto> []]\<rparr>)"
proof -
  have c: "cwd (world_fixture (Some ''ci-runner'') Map.empty) = ''/app''"
    by (simp add: world_fixture_def)
  have m: "initializeMachineId (world_fixture (Some ''ci-runner'') Map.empty) path rnd
      = (Inr ''ci-runner'', world_fixture (Some ''ci-runner'') Map.empty)" for path
    by (simp add: initializeMachineId_override world_fixture_def)
  have o: "open_database (world_fixture (Some ''ci-runner'') Map.empty) path
      = (Inr [], (world_fixture (Some ''ci-runner'') Map.empty)\<lparr>databases := [path \<mapsto> []]\<rparr>)"
    for path
    by (simp add: open_database_def world_fixture_def)
  show "Observability_new (world_fixture (Some ''ci-runner'') Map.empty) rnd (Some ''/var/obs'')
   = (Inr \<lparr> db = [], machineId = ''ci-runner'', dataDir = ''/var/obs'',
            machineIdFile = ''/var/obs/.machine_id'' \<rparr>,
      (world_fixture (Some ''ci-runner'') Map.empty)
        \<lparr>databases := [''/var/obs/observability.db'' \<mapsto> []]\<rparr>)"
    by (simp add: Observability_new_def Let_def c resolve_fixtures m o)
  show "Observability_new (world_fixture (Some ''ci-runner'') Map.empty) rnd None
   = (Inr \<lparr> db = [], machineId = ''ci-runner'', dataDir = ''/app/data'',
            machineIdFile = ''/app/data/.machine_id'' \<rparr>,
      (world_fixture (Some ''ci-runner'') Map.empty)
        \<lparr>databases := [''/app/data/observability.db'' \<mapsto> []]\<rparr>)"
    by (simp add: Observability_new_def Let_def c resolve_fixtures m o)
qed

text \<open>
  C8 at work: a first call for \<open>/var/obs\<close>, a second call for \<open>/tmp/elsewhere\<close> in
  another world, and \<open>getObservability\<close> on an empty variable.
\<close>

theorem singleton_keeps_first_instance_witness:
  "fst (initializeObservability None (world_fixture (Some ''ci-runner'') Map.empty)
          [171, 205, 239] (Some ''/var/obs''))
     = Inr \<lparr> db = [], machineId = ''ci-runner'', dataDir = ''/var/obs'',
              machineIdFile = ''/var/obs/.machine_id'' \<rparr>
   \<and> fst (initializeObservability
          (fst (snd (initializeObservability None (world_fixture (Some ''ci-runner'') Map.empty)
                  [171, 205, 239] (Some ''/var/obs''))))
          (world_fixture None Map.empty) [1, 2, 3] (Some ''/tmp/elsewhere''))
     = Inr \<lparr> db = [], machineId = ''ci-runner'', dataDir = ''/var/obs'',
              machineIdFile = ''/var/obs/.machine_id'' \<rparr>
   \<and> fst (getObservability None (world_fixture (Some ''ci-runner'') Map.empty) [171, 205, 239])
     = Inr \<lparr> db = [], machineId = ''ci-runner'', dataDir = ''/app/data'',
              machineIdFile = ''/app/data/.machine_id'' \<rparr>"
proof -
  let ?w = "world_fixture (Some ''ci-runner'') Map.empty"
  let ?obs = "\<lparr> db = [], machineId = ''ci-runner'', dataDir = ''/var/obs'',
                machineIdFile = ''/var/obs/.machine_id'' \<rparr>"
  have i: "initializeObservability None ?w [171, 205, 239] (Some ''/var/obs'')
      = (Inr ?obs, Some ?obs, ?w\<lparr>databases := [''/var/obs/observability.db'' \<mapsto> []]\<rparr>)"
    by (simp add: initializeObservability_def Observability_new_fixture)
  from singleton_keeps_first_instance[THEN conjunct2, THEN conjunct2, THEN conjunct1,
      rule_format, OF i]
  have "initializeObservability (Some ?obs) (world_fixture None Map.empty) [1, 2, 3]
          (Some ''/tmp/elsewhere'')
      = (Inr ?obs, Some ?obs, world_fixture None Map.empty)"
    by blast
  moreover have "fst (getObservability None ?w [171, 205, 239])
     = Inr \<lparr> db = [], machineId = ''ci-runner'', dataDir = ''/app/data'',
              machineIdFile = ''/app/data/.machine_id'' \<rparr>"
    by (simp add: getObservability_def Observability_new_fixture)
  ultimately show ?thesis by (simp add: i)
qed


end
